theory Spec2Isabelle
  imports Complex_Main
begin

section \<open>Data model\<close>

text \<open>
  The evaluator of \<^verbatim>\<open>src/tau2/evaluator/evaluator_env.py\<close> scores a recorded trajectory
  against a task. Its inputs are pydantic objects loaded from JSON; the payloads it only
  passes on (tool arguments, seed data, database snapshots, assertions) are JSON values.
\<close>

datatype json =
    JNull
  | JBool bool
  | JInt int
  | JStr string
  | JList "json list"
  | JDict "(string \<times> json) list"

type_synonym pydict = "(string \<times> json) list"

text \<open>
  Every exception the evaluator can meet derives from \<^verbatim>\<open>Exception\<close>; it carries its
  message.
\<close>

datatype error = Error string

datatype requestor = AssistantRequestor | UserRequestor

datatype ToolCall = ToolCall string pydict requestor

text \<open>
  Modelled from the spec: the message classes (\<^verbatim>\<open>tau2.data_model.message\<close>) are not
  among the sources. A trajectory is a sequence of user, assistant, tool and system
  messages; a user or assistant message carries an optional list of tool calls, tool and
  system messages carry none. \<^verbatim>\<open>is_tool_call()\<close> holds when the list is present.
\<close>

datatype Message =
    AssistantMessage "string option" "ToolCall list option"
  | UserMessage "string option" "ToolCall list option"
  | ToolMessage string
  | SystemMessage string

fun tool_calls :: "Message \<Rightarrow> ToolCall list option" where
  "tool_calls (AssistantMessage c tcs) = tcs"
| "tool_calls (UserMessage c tcs) = tcs"
| "tool_calls (ToolMessage c) = None"
| "tool_calls (SystemMessage c) = None"

definition is_tool_call :: "Message \<Rightarrow> bool" where
  "is_tool_call m = (tool_calls m \<noteq> None)"

fun is_assistant_or_user :: "Message \<Rightarrow> bool" where
  "is_assistant_or_user (AssistantMessage c tcs) = True"
| "is_assistant_or_user (UserMessage c tcs) = True"
| "is_assistant_or_user (ToolMessage c) = False"
| "is_assistant_or_user (SystemMessage c) = False"

record Action =
  name :: string
  requestor :: requestor
  arguments :: pydict

text \<open>An assertion is handed to the environment as it is.\<close>

type_synonym EnvAssertion = json

text \<open>
  The evaluator reads two members of \<^verbatim>\<open>RewardType\<close>; any other member of the enumeration
  (communication match and so on) is \<open>OTHER\<close> with its name.
\<close>

datatype RewardType = DB | ENV_ASSERTION | OTHER string

record EvaluationCriteria =
  actions :: "Action list option"
  env_assertions :: "EnvAssertion list option"
  reward_basis :: "RewardType list"

record InitialState =
  initialization_data :: "json option"
  initialization_actions :: "json option"
  message_history :: "Message list option"

text \<open>\<open>task_id\<close> is the field \<^verbatim>\<open>Task.id\<close>.\<close>

record Task =
  task_id :: string
  evaluation_criteria :: "EvaluationCriteria option"
  initial_state :: "InitialState option"

record DBCheck =
  db_match :: bool
  db_reward :: real

text \<open>\<open>check_reward\<close> is the field \<^verbatim>\<open>EnvAssertionCheck.reward\<close>.\<close>

record EnvAssertionCheck =
  env_assertion :: EnvAssertion
  met :: bool
  check_reward :: real

text \<open>
  A field of \<^verbatim>\<open>RewardInfo\<close> that the constructor call does not pass is \<open>None\<close> here.
  \<open>ri_env_assertions\<close> and \<open>ri_reward_basis\<close> are the fields \<^verbatim>\<open>env_assertions\<close> and
  \<^verbatim>\<open>reward_basis\<close> of the result. Rewards are the floats 0.0 and 1.0 and products of
  them, which are exact, so they are reals here.
\<close>

record RewardInfo =
  reward :: real
  db_check :: "DBCheck option"
  ri_env_assertions :: "EnvAssertionCheck list option"
  ri_reward_basis :: "RewardType list option"
  reward_breakdown :: "(RewardType \<rightharpoonup> real) option"
  info :: "(string \<times> string) list option"

section \<open>The environment contract\<close>

text \<open>
  Modelled from the spec: the class \<^verbatim>\<open>Environment\<close> (\<^verbatim>\<open>tau2.environment.environment\<close>) is
  not among the sources; the evaluator uses it through the contract of section 6 of the
  specification. An environment object is a state of type \<open>'e\<close>; digests have type \<open>'h\<close>
  and are only compared. The constructor and \<^verbatim>\<open>set_state\<close> return the new state or raise;
  \<^verbatim>\<open>make_tool_call\<close> changes the object in place and may raise after doing so, hence it
  returns the exception, if any, together with the state it leaves behind. The digest and
  snapshot getters, the attribute \<^verbatim>\<open>tools\<close> and \<^verbatim>\<open>run_env_assertion\<close> read the state
  and may raise. The argument of \<open>construct\<close> is the keyword \<^verbatim>\<open>solo_mode\<close> when the call
  passes it. The last argument of \<open>run_env_assertion\<close> is \<^verbatim>\<open>raise_assertion_error\<close>.
\<close>

record ('e, 'h) Environment =
  construct :: "bool option \<Rightarrow> error + 'e"
  set_state :: "'e \<Rightarrow> json option \<Rightarrow> json option \<Rightarrow> Message list \<Rightarrow> error + 'e"
  has_tools :: "'e \<Rightarrow> bool"
  make_tool_call :: "'e \<Rightarrow> string \<Rightarrow> requestor \<Rightarrow> pydict \<Rightarrow> error option \<times> 'e"
  get_db_hash :: "'e \<Rightarrow> error + 'h"
  get_user_db_hash :: "'e \<Rightarrow> error + 'h"
  get_agent_db_state :: "'e \<Rightarrow> error + pydict option"
  get_user_db_state :: "'e \<Rightarrow> error + pydict option"
  run_env_assertion :: "'e \<Rightarrow> EnvAssertion \<Rightarrow> bool \<Rightarrow> error + bool"

section \<open>Diagnostics\<close>

text \<open>
  What the evaluator writes besides its result: the loguru messages and the Logfire spans,
  in the order they are emitted.
\<close>

record 'h DbCheckSpan =
  span_task_id :: string
  span_db_match :: bool
  span_agent_db_match :: bool
  span_user_db_match :: bool
  expected_agent_db_hash :: 'h
  predicted_agent_db_hash :: 'h
  expected_user_db_hash :: 'h
  predicted_user_db_hash :: 'h
  agent_db_diff :: "json option"
  user_db_diff :: "json option"
  expected_agent_db_state :: "pydict option"
  predicted_agent_db_state :: "pydict option"
  expected_user_db_state :: "pydict option"
  predicted_user_db_state :: "pydict option"

datatype 'h span =
    AgentDbUpdatedGold string nat string pydict "json option"
  | DbCheck "'h DbCheckSpan"

datatype 'h event =
    GoldenActionWarning string pydict error
  | AgentDbMismatch string
  | UserDbMismatch string
  | Span "'h span"

text \<open>
  The Logfire side: the module flag read by \<^verbatim>\<open>is_logfire_enabled()\<close>
  (\<^verbatim>\<open>src/tau2/logfire_setup.py\<close>), whether \<^verbatim>\<open>import logfire\<close> raises, whether opening a
  span raises, and the \<^verbatim>\<open>DeepDiff\<close> library behind \<^verbatim>\<open>dict_diff_for_logging\<close>.
\<close>

record 'h Logfire =
  is_logfire_enabled :: bool
  import_logfire :: "error option"
  logfire_span :: "'h span \<Rightarrow> error option"
  deep_diff :: "pydict \<Rightarrow> pydict \<Rightarrow> error + json"

text \<open>\<^verbatim>\<open>src/tau2/utils/utils.py\<close>, \<^verbatim>\<open>dict_diff_for_logging\<close>.\<close>

definition dict_diff_for_logging ::
  "(pydict \<Rightarrow> pydict \<Rightarrow> error + json) \<Rightarrow> pydict option \<Rightarrow> pydict option \<Rightarrow> error + json option" where
  "dict_diff_for_logging dd expected predicted =
     (case (expected, predicted) of
        (None, None) \<Rightarrow> Inr None
      | (None, Some p) \<Rightarrow>
          Inr (Some (JDict [(''note'', JStr ''expected is None''),
                            (''predicted_keys'', JList (map (\<lambda>kv. JStr (fst kv)) p))]))
      | (Some e, None) \<Rightarrow>
          Inr (Some (JDict [(''note'', JStr ''predicted is None''),
                            (''expected_keys'', JList (map (\<lambda>kv. JStr (fst kv)) e))]))
      | (Some e, Some p) \<Rightarrow>
          (case dd e p of Inl x \<Rightarrow> Inl x | Inr d \<Rightarrow> Inr (Some d)))"

section \<open>The evaluator\<close>

text \<open>
  \<^verbatim>\<open>EnvironmentEvaluator.calculate_reward\<close>, stage by stage. A stage that can raise
  returns \<open>Inl\<close> of the exception; a stage that writes diagnostics returns the events it
  wrote next to its result.
\<close>

subsection \<open>Seed values (lines 53 to 72)\<close>

definition initialization_data_of :: "Task \<Rightarrow> json option" where
  "initialization_data_of task =
     (case initial_state task of None \<Rightarrow> None | Some s \<Rightarrow> initialization_data s)"

definition initialization_actions_of :: "Task \<Rightarrow> json option" where
  "initialization_actions_of task =
     (case initial_state task of None \<Rightarrow> None | Some s \<Rightarrow> initialization_actions s)"

definition message_history_of :: "Task \<Rightarrow> Message list" where
  "message_history_of task =
     (case initial_state task of
        None \<Rightarrow> []
      | Some s \<Rightarrow> (case message_history s of None \<Rightarrow> [] | Some h \<Rightarrow> h))"

subsection \<open>Predicted environment (lines 74 to 79)\<close>

definition predicted_environment ::
  "('e, 'h) Environment \<Rightarrow> Task \<Rightarrow> Message list \<Rightarrow> bool \<Rightarrow> error + 'e" where
  "predicted_environment env task full_trajectory solo_mode =
     (case construct env (Some solo_mode) of
        Inl x \<Rightarrow> Inl x
      | Inr e \<Rightarrow>
          set_state env e (initialization_data_of task) (initialization_actions_of task)
            full_trajectory)"

subsection \<open>Predicted tool calls (lines 80 to 86)\<close>

text \<open>
  \<^verbatim>\<open>list.extend\<close> raises a \<^verbatim>\<open>TypeError\<close> on \<^verbatim>\<open>None\<close>; the branch is written out.
\<close>

fun predicted_tool_calls :: "Message list \<Rightarrow> ToolCall list \<Rightarrow> error + ToolCall list" where
  "predicted_tool_calls [] acc = Inr acc"
| "predicted_tool_calls (message # rest) acc =
     (if is_assistant_or_user message \<and> is_tool_call message then
        (case tool_calls message of
           None \<Rightarrow> Inl (Error ''TypeError'')
         | Some tcs \<Rightarrow> predicted_tool_calls rest (acc @ tcs))
      else predicted_tool_calls rest acc)"

subsection \<open>Gold environment and golden actions (lines 89 to 135)\<close>

definition seeded_gold_environment :: "('e, 'h) Environment \<Rightarrow> Task \<Rightarrow> error + 'e" where
  "seeded_gold_environment env task =
     (case construct env None of
        Inl x \<Rightarrow> Inl x
      | Inr e \<Rightarrow>
          set_state env e (initialization_data_of task) (initialization_actions_of task)
            (message_history_of task))"

text \<open>Lines 97 to 101: the snapshot taken before each golden action.\<close>

definition agent_db_before_gold :: "('e, 'h) Environment \<Rightarrow> 'e \<Rightarrow> error + pydict option" where
  "agent_db_before_gold env gold =
     (if has_tools env gold then get_agent_db_state env gold else Inr None)"

text \<open>Lines 119 to 133: the body of the \<^verbatim>\<open>try\<close> block around the golden-action span.\<close>

definition try_agent_db_updated_gold ::
  "('e, 'h) Environment \<Rightarrow> 'h Logfire \<Rightarrow> string \<Rightarrow> nat \<Rightarrow> Action \<Rightarrow> pydict option \<Rightarrow> 'e
     \<Rightarrow> error + 'h event list" where
  "try_agent_db_updated_gold env lf tid step_index action db_before gold =
     (case import_logfire lf of
        Some x \<Rightarrow> Inl x
      | None \<Rightarrow>
     (case get_agent_db_state env gold of
        Inl x \<Rightarrow> Inl x
      | Inr agent_db_after_gold \<Rightarrow>
     (case dict_diff_for_logging (deep_diff lf) db_before agent_db_after_gold of
        Inl x \<Rightarrow> Inl x
      | Inr diff \<Rightarrow>
     (let s = AgentDbUpdatedGold tid step_index (name action) (arguments action) diff
      in case logfire_span lf s of
           Some x \<Rightarrow> Inl x
         | None \<Rightarrow> Inr [Span s]))))"

text \<open>Lines 113 to 135: the guard and the \<^verbatim>\<open>except Exception: pass\<close>.\<close>

definition log_agent_db_updated_gold ::
  "('e, 'h) Environment \<Rightarrow> 'h Logfire \<Rightarrow> string \<Rightarrow> nat \<Rightarrow> Action \<Rightarrow> pydict option \<Rightarrow> 'e
     \<Rightarrow> 'h event list" where
  "log_agent_db_updated_gold env lf tid step_index action db_before gold =
     (if is_logfire_enabled lf \<and> db_before \<noteq> None \<and> has_tools env gold then
        (case try_agent_db_updated_gold env lf tid step_index action db_before gold of
           Inl x \<Rightarrow> []
         | Inr evs \<Rightarrow> evs)
      else [])"

text \<open>
  Lines 96 to 135: the loop over \<^verbatim>\<open>enumerate(golden_actions)\<close>, from \<open>step_index\<close> on.
\<close>

fun replay_golden_actions ::
  "('e, 'h) Environment \<Rightarrow> 'h Logfire \<Rightarrow> string \<Rightarrow> nat \<Rightarrow> Action list \<Rightarrow> 'e
     \<Rightarrow> (error + 'e) \<times> 'h event list" where
  "replay_golden_actions env lf tid step_index [] gold = (Inr gold, [])"
| "replay_golden_actions env lf tid step_index (action # rest) gold =
     (case agent_db_before_gold env gold of
        Inl x \<Rightarrow> (Inl x, [])
      | Inr db_before \<Rightarrow>
          (case make_tool_call env gold (name action) (requestor action) (arguments action) of
             (raised, gold') \<Rightarrow>
               (let warning =
                      (case raised of
                         None \<Rightarrow> []
                       | Some x \<Rightarrow> [GoldenActionWarning (name action) (arguments action) x]);
                    spans = log_agent_db_updated_gold env lf tid step_index action db_before gold';
                    r = replay_golden_actions env lf tid (Suc step_index) rest gold'
                in (fst r, warning @ spans @ snd r))))"

definition golden_actions :: "EvaluationCriteria \<Rightarrow> Action list" where
  "golden_actions crit = (case actions crit of None \<Rightarrow> [] | Some as \<Rightarrow> as)"

definition gold_environment ::
  "('e, 'h) Environment \<Rightarrow> 'h Logfire \<Rightarrow> Task \<Rightarrow> EvaluationCriteria
     \<Rightarrow> (error + 'e) \<times> 'h event list" where
  "gold_environment env lf task crit =
     (case seeded_gold_environment env task of
        Inl x \<Rightarrow> (Inl x, [])
      | Inr gold \<Rightarrow> replay_golden_actions env lf (task_id task) 0 (golden_actions crit) gold)"

subsection \<open>Comparing the environments (lines 138 to 158)\<close>

text \<open>
  The four digests, in the order the code fetches them: gold agent, gold user, predicted
  agent, predicted user.
\<close>

definition db_hashes :: "('e, 'h) Environment \<Rightarrow> 'e \<Rightarrow> 'e \<Rightarrow> error + ('h \<times> 'h \<times> 'h \<times> 'h)" where
  "db_hashes env gold pred =
     (case get_db_hash env gold of
        Inl x \<Rightarrow> Inl x
      | Inr agent_db_hash \<Rightarrow>
     (case get_user_db_hash env gold of
        Inl x \<Rightarrow> Inl x
      | Inr user_db_hash \<Rightarrow>
     (case get_db_hash env pred of
        Inl x \<Rightarrow> Inl x
      | Inr predicted_agent_hash \<Rightarrow>
     (case get_user_db_hash env pred of
        Inl x \<Rightarrow> Inl x
      | Inr predicted_user_hash \<Rightarrow>
          Inr (agent_db_hash, user_db_hash, predicted_agent_hash, predicted_user_hash)))))"

definition agent_db_match :: "'h \<times> 'h \<times> 'h \<times> 'h \<Rightarrow> bool" where
  "agent_db_match hs = (case hs of (a, u, pa, pu) \<Rightarrow> a = pa)"

definition user_db_match :: "'h \<times> 'h \<times> 'h \<times> 'h \<Rightarrow> bool" where
  "user_db_match hs = (case hs of (a, u, pa, pu) \<Rightarrow> u = pu)"

text \<open>Lines 144 to 149 and 196.\<close>

definition compare_db :: "'h \<times> 'h \<times> 'h \<times> 'h \<Rightarrow> DBCheck" where
  "compare_db hs =
     (if agent_db_match hs \<and> user_db_match hs
      then \<lparr>db_match = True, db_reward = 1\<rparr>
      else \<lparr>db_match = False, db_reward = 0\<rparr>)"

text \<open>Lines 150 to 158: the debug messages of a mismatch.\<close>

definition log_db_mismatch :: "string \<Rightarrow> 'h \<times> 'h \<times> 'h \<times> 'h \<Rightarrow> 'h event list" where
  "log_db_mismatch tid hs =
     (if agent_db_match hs \<and> user_db_match hs then []
      else (if \<not> agent_db_match hs then [AgentDbMismatch tid] else []) @
           (if \<not> user_db_match hs then [UserDbMismatch tid] else []))"

subsection \<open>The span of the comparison (lines 161 to 194)\<close>

definition try_db_check_span ::
  "('e, 'h) Environment \<Rightarrow> 'h Logfire \<Rightarrow> string \<Rightarrow> 'h \<times> 'h \<times> 'h \<times> 'h \<Rightarrow> 'e \<Rightarrow> 'e
     \<Rightarrow> error + 'h event list" where
  "try_db_check_span env lf tid hs gold pred =
     (case import_logfire lf of
        Some x \<Rightarrow> Inl x
      | None \<Rightarrow>
     (case get_agent_db_state env gold of
        Inl x \<Rightarrow> Inl x
      | Inr expected_agent_db \<Rightarrow>
     (case get_user_db_state env gold of
        Inl x \<Rightarrow> Inl x
      | Inr expected_user_db \<Rightarrow>
     (case get_agent_db_state env pred of
        Inl x \<Rightarrow> Inl x
      | Inr predicted_agent_db \<Rightarrow>
     (case get_user_db_state env pred of
        Inl x \<Rightarrow> Inl x
      | Inr predicted_user_db \<Rightarrow>
     (case dict_diff_for_logging (deep_diff lf) expected_agent_db predicted_agent_db of
        Inl x \<Rightarrow> Inl x
      | Inr agent_diff \<Rightarrow>
     (case dict_diff_for_logging (deep_diff lf) expected_user_db predicted_user_db of
        Inl x \<Rightarrow> Inl x
      | Inr user_diff \<Rightarrow>
     (let s = DbCheck
               \<lparr>span_task_id = tid,
                span_db_match = db_match (compare_db hs),
                span_agent_db_match = agent_db_match hs,
                span_user_db_match = user_db_match hs,
                expected_agent_db_hash = fst hs,
                predicted_agent_db_hash = fst (snd (snd hs)),
                expected_user_db_hash = fst (snd hs),
                predicted_user_db_hash = snd (snd (snd hs)),
                agent_db_diff = agent_diff,
                user_db_diff = user_diff,
                expected_agent_db_state = expected_agent_db,
                predicted_agent_db_state = predicted_agent_db,
                expected_user_db_state = expected_user_db,
                predicted_user_db_state = predicted_user_db\<rparr>
      in case logfire_span lf s of
           Some x \<Rightarrow> Inl x
         | None \<Rightarrow> Inr [Span s]))))))))"

definition log_db_check ::
  "('e, 'h) Environment \<Rightarrow> 'h Logfire \<Rightarrow> string \<Rightarrow> 'h \<times> 'h \<times> 'h \<times> 'h \<Rightarrow> 'e \<Rightarrow> 'e
     \<Rightarrow> 'h event list" where
  "log_db_check env lf tid hs gold pred =
     (if is_logfire_enabled lf then
        (case try_db_check_span env lf tid hs gold pred of
           Inl x \<Rightarrow> []
         | Inr evs \<Rightarrow> evs)
      else [])"

subsection \<open>Environment assertions (lines 199 to 213)\<close>

text \<open>
  The loop, with its two accumulators \<^verbatim>\<open>env_assertion_checks\<close> and
  \<^verbatim>\<open>env_assertion_reward\<close>.
\<close>

fun run_env_assertions ::
  "('e, 'h) Environment \<Rightarrow> 'e \<Rightarrow> EnvAssertion list \<Rightarrow> EnvAssertionCheck list \<Rightarrow> real
     \<Rightarrow> error + (EnvAssertionCheck list \<times> real)" where
  "run_env_assertions env pred [] checks env_assertion_reward =
     Inr (checks, env_assertion_reward)"
| "run_env_assertions env pred (a # rest) checks env_assertion_reward =
     (case run_env_assertion env pred a False of
        Inl x \<Rightarrow> Inl x
      | Inr success \<Rightarrow>
          (let res = \<lparr>env_assertion = a, met = success,
                      check_reward = (if success then 1 else 0)\<rparr>
           in run_env_assertions env pred rest (checks @ [res])
                (env_assertion_reward * check_reward res)))"

definition assertions_of :: "EvaluationCriteria \<Rightarrow> EnvAssertion list" where
  "assertions_of crit = (case env_assertions crit of None \<Rightarrow> [] | Some as \<Rightarrow> as)"

subsection \<open>Composing the reward (lines 215 to 230)\<close>

definition compose_reward ::
  "RewardType list \<Rightarrow> real \<Rightarrow> real \<Rightarrow> real \<times> (RewardType \<rightharpoonup> real)" where
  "compose_reward basis dbr env_assertion_reward =
     (let r0 = (1, Map.empty);
          r1 = (if DB \<in> set basis
                then (fst r0 * dbr, (snd r0)(DB \<mapsto> dbr))
                else r0);
          r2 = (if ENV_ASSERTION \<in> set basis
                then (fst r1 * env_assertion_reward,
                      (snd r1)(ENV_ASSERTION \<mapsto> env_assertion_reward))
                else r1)
      in r2)"

subsection \<open>The full evaluation\<close>

text \<open>Lines 88 to 230: everything after the predicted environment is set up.\<close>

definition evaluate_against_gold ::
  "('e, 'h) Environment \<Rightarrow> 'h Logfire \<Rightarrow> Task \<Rightarrow> EvaluationCriteria \<Rightarrow> 'e
     \<Rightarrow> (error + RewardInfo) \<times> 'h event list" where
  "evaluate_against_gold env lf task crit pred =
     (case gold_environment env lf task crit of
        (Inl x, evs) \<Rightarrow> (Inl x, evs)
      | (Inr gold, evs) \<Rightarrow>
     (case db_hashes env gold pred of
        Inl x \<Rightarrow> (Inl x, evs)
      | Inr hs \<Rightarrow>
     (let check = compare_db hs;
          evs' = evs @ log_db_mismatch (task_id task) hs
                     @ log_db_check env lf (task_id task) hs gold pred
      in case run_env_assertions env pred (assertions_of crit) [] 1 of
           Inl x \<Rightarrow> (Inl x, evs')
         | Inr (checks, env_assertion_reward) \<Rightarrow>
             (let c = compose_reward (reward_basis crit) (db_reward check) env_assertion_reward
              in (Inr \<lparr>reward = fst c,
                       db_check = Some check,
                       ri_env_assertions = Some checks,
                       ri_reward_basis = Some (reward_basis crit),
                       reward_breakdown = Some (snd c),
                       info = None\<rparr>,
                  evs')))))"

text \<open>Lines 53 to 230.\<close>

definition full_evaluation ::
  "('e, 'h) Environment \<Rightarrow> 'h Logfire \<Rightarrow> Task \<Rightarrow> EvaluationCriteria \<Rightarrow> Message list \<Rightarrow> bool
     \<Rightarrow> (error + RewardInfo) \<times> 'h event list" where
  "full_evaluation env lf task crit full_trajectory solo_mode =
     (case predicted_environment env task full_trajectory solo_mode of
        Inl x \<Rightarrow> (Inl x, [])
      | Inr pred \<Rightarrow>
          (case predicted_tool_calls full_trajectory [] of
             Inl x \<Rightarrow> (Inl x, [])
           | Inr tcs \<Rightarrow> evaluate_against_gold env lf task crit pred))"

text \<open>The two early returns (lines 39 to 51).\<close>

definition no_criteria_info :: RewardInfo where
  "no_criteria_info =
     \<lparr>reward = 1, db_check = None, ri_env_assertions = None, ri_reward_basis = None,
      reward_breakdown = None, info = Some [(''note'', ''No evaluation criteria'')]\<rparr>"

definition trivial_criteria_info :: RewardInfo where
  "trivial_criteria_info =
     \<lparr>reward = 1, db_check = Some \<lparr>db_match = True, db_reward = 1\<rparr>,
      ri_env_assertions = None, ri_reward_basis = None, reward_breakdown = None,
      info = Some [(''note'', ''No expected actions or env assertions'')]\<rparr>"

definition calculate_reward ::
  "('e, 'h) Environment \<Rightarrow> 'h Logfire \<Rightarrow> Task \<Rightarrow> Message list \<Rightarrow> bool
     \<Rightarrow> (error + RewardInfo) \<times> 'h event list" where
  "calculate_reward env lf task full_trajectory solo_mode =
     (case evaluation_criteria task of
        None \<Rightarrow> (Inr no_criteria_info, [])
      | Some crit \<Rightarrow>
          (if actions crit = None \<and> env_assertions crit = None
           then (Inr trivial_criteria_info, [])
           else full_evaluation env lf task crit full_trajectory solo_mode))"

text \<open>
  The same function with the loop of lines 80 to 86 (the list \<^verbatim>\<open>predicted_tool_calls\<close>)
  deleted.
\<close>

definition calculate_reward_without_extraction ::
  "('e, 'h) Environment \<Rightarrow> 'h Logfire \<Rightarrow> Task \<Rightarrow> Message list \<Rightarrow> bool
     \<Rightarrow> (error + RewardInfo) \<times> 'h event list" where
  "calculate_reward_without_extraction env lf task full_trajectory solo_mode =
     (case evaluation_criteria task of
        None \<Rightarrow> (Inr no_criteria_info, [])
      | Some crit \<Rightarrow>
          (if actions crit = None \<and> env_assertions crit = None
           then (Inr trivial_criteria_info, [])
           else (case predicted_environment env task full_trajectory solo_mode of
                   Inl x \<Rightarrow> (Inl x, [])
                 | Inr pred \<Rightarrow> evaluate_against_gold env lf task crit pred)))"

section \<open>Notions used in the statements\<close>

text \<open>The state-match signal and the aggregate assertion signal that a result reports.\<close>

definition db_signal :: "RewardInfo \<Rightarrow> real" where
  "db_signal r = (case db_check r of None \<Rightarrow> 1 | Some c \<Rightarrow> db_reward c)"

definition assertion_signal :: "RewardInfo \<Rightarrow> real" where
  "assertion_signal r =
     (case ri_env_assertions r of None \<Rightarrow> 1 | Some cs \<Rightarrow> prod_list (map check_reward cs))"

text \<open>The breakdown that holds exactly the signals selected by the basis.\<close>

definition selected_breakdown :: "RewardType list \<Rightarrow> real \<Rightarrow> real \<Rightarrow> (RewardType \<rightharpoonup> real)" where
  "selected_breakdown basis dbr ar =
     (\<lambda>k. if k = DB \<and> DB \<in> set basis then Some dbr
          else if k = ENV_ASSERTION \<and> ENV_ASSERTION \<in> set basis then Some ar
          else None)"

text \<open>The check recorded for an assertion whose evaluation gave \<open>b\<close>.\<close>

definition assertion_check :: "EnvAssertion \<Rightarrow> bool \<Rightarrow> EnvAssertionCheck" where
  "assertion_check a b = \<lparr>env_assertion = a, met = b, check_reward = (if b then 1 else 0)\<rparr>"

text \<open>The effect of one golden action on the gold environment, raised or not.\<close>

definition apply_action :: "('e, 'h) Environment \<Rightarrow> 'e \<Rightarrow> Action \<Rightarrow> 'e" where
  "apply_action env e a = snd (make_tool_call env e (name a) (requestor a) (arguments a))"




definition never_raise_flag :: "('e, 'h) Environment \<Rightarrow> ('e, 'h) Environment" where
  "never_raise_flag env =
     env\<lparr>run_env_assertion := \<lambda>e a raise_flag. run_env_assertion env e a False\<rparr>"


text \<open>The digests compared at lines 138 to 143, as a function of the inputs.\<close>

definition compared_digests ::
  "('e, 'h) Environment \<Rightarrow> 'h Logfire \<Rightarrow> Task \<Rightarrow> EvaluationCriteria \<Rightarrow> Message list \<Rightarrow> bool
     \<Rightarrow> error + ('h \<times> 'h \<times> 'h \<times> 'h)" where
  "compared_digests env lf task crit full_trajectory solo_mode =
     (case predicted_environment env task full_trajectory solo_mode of
        Inl x \<Rightarrow> Inl x
      | Inr pred \<Rightarrow>
          (case fst (gold_environment env lf task crit) of
             Inl x \<Rightarrow> Inl x
           | Inr gold \<Rightarrow> db_hashes env gold pred))"

text \<open>
  Two environment implementations whose instances behave identically on identical call
  sequences: \<open>R\<close> relates the states of the two, the constructors and the mutators keep
  it and raise alike, and related states answer every read alike.
\<close>

definition env_bisim ::
  "('e1 \<Rightarrow> 'e2 \<Rightarrow> bool) \<Rightarrow> ('e1, 'h) Environment \<Rightarrow> ('e2, 'h) Environment \<Rightarrow> bool" where
  "env_bisim R env1 env2 =
     ((\<forall>b. rel_sum (=) R (construct env1 b) (construct env2 b)) \<and>
      (\<forall>e1 e2 d a h. R e1 e2 \<longrightarrow>
         rel_sum (=) R (set_state env1 e1 d a h) (set_state env2 e2 d a h)) \<and>
      (\<forall>e1 e2 n r a. R e1 e2 \<longrightarrow>
         rel_prod (=) R (make_tool_call env1 e1 n r a) (make_tool_call env2 e2 n r a)) \<and>
      (\<forall>e1 e2. R e1 e2 \<longrightarrow>
         has_tools env1 e1 = has_tools env2 e2 \<and>
         get_db_hash env1 e1 = get_db_hash env2 e2 \<and>
         get_user_db_hash env1 e1 = get_user_db_hash env2 e2 \<and>
         get_agent_db_state env1 e1 = get_agent_db_state env2 e2 \<and>
         get_user_db_state env1 e1 = get_user_db_state env2 e2 \<and>
         (\<forall>a f. run_env_assertion env1 e1 a f = run_env_assertion env2 e2 a f)))"

text \<open>
  The part of that on which the result of the evaluation rests: the exception of
  \<^verbatim>\<open>make_tool_call\<close> is left out, and of the reads only the snapshot before a golden
  action, the digests and the assertions with the flag off remain.
\<close>

definition env_sim ::
  "('e1 \<Rightarrow> 'e2 \<Rightarrow> bool) \<Rightarrow> ('e1, 'h) Environment \<Rightarrow> ('e2, 'h) Environment \<Rightarrow> bool" where
  "env_sim R env1 env2 =
     ((\<forall>b. rel_sum (=) R (construct env1 b) (construct env2 b)) \<and>
      (\<forall>e1 e2 d a h. R e1 e2 \<longrightarrow>
         rel_sum (=) R (set_state env1 e1 d a h) (set_state env2 e2 d a h)) \<and>
      (\<forall>e1 e2 n r a. R e1 e2 \<longrightarrow>
         R (snd (make_tool_call env1 e1 n r a)) (snd (make_tool_call env2 e2 n r a))) \<and>
      (\<forall>e1 e2. R e1 e2 \<longrightarrow>
         agent_db_before_gold env1 e1 = agent_db_before_gold env2 e2 \<and>
         get_db_hash env1 e1 = get_db_hash env2 e2 \<and>
         get_user_db_hash env1 e1 = get_user_db_hash env2 e2 \<and>
         (\<forall>a. run_env_assertion env1 e1 a False = run_env_assertion env2 e2 a False)))"

section \<open>An example environment\<close>

text \<open>
  A booking counter for each party. The tool \<^verbatim>\<open>book_flight\<close> adds one booking for its
  requestor and any other tool name raises; \<^verbatim>\<open>set_state\<close> rejects seed data that is a
  string and a message history that starts with a tool message, and otherwise replays
  the tool calls of the message history; the digest of a
  partition is its counter; the assertion \<open>JInt n\<close> says that the agent has \<open>n\<close>
  bookings, and a failed assertion raises only when the flag asks for it.
\<close>

definition demo_call :: "int \<times> int \<Rightarrow> string \<Rightarrow> requestor \<Rightarrow> pydict \<Rightarrow> error option \<times> (int \<times> int)" where
  "demo_call e n r a =
     (if n = ''book_flight''
      then (None, (case r of AssistantRequestor \<Rightarrow> (fst e + 1, snd e)
                           | UserRequestor \<Rightarrow> (fst e, snd e + 1)))
      else (Some (Error ''Tool not found''), e))"

fun demo_replay_calls :: "ToolCall list \<Rightarrow> int \<times> int \<Rightarrow> int \<times> int" where
  "demo_replay_calls [] e = e"
| "demo_replay_calls (ToolCall n a r # rest) e = demo_replay_calls rest (snd (demo_call e n r a))"

fun demo_replay :: "Message list \<Rightarrow> int \<times> int \<Rightarrow> int \<times> int" where
  "demo_replay [] e = e"
| "demo_replay (m # rest) e =
     demo_replay rest (case tool_calls m of None \<Rightarrow> e | Some tcs \<Rightarrow> demo_replay_calls tcs e)"

definition demo_set_state ::
  "int \<times> int \<Rightarrow> json option \<Rightarrow> json option \<Rightarrow> Message list \<Rightarrow> error + (int \<times> int)" where
  "demo_set_state e d a h =
     (case d of
        Some (JStr s) \<Rightarrow> Inl (Error ''invalid initialization data'')
      | _ \<Rightarrow>
          (case h of
             ToolMessage c # rest \<Rightarrow> Inl (Error ''tool message without a tool call'')
           | _ \<Rightarrow> Inr (demo_replay h e)))"

definition demo_assertion :: "int \<times> int \<Rightarrow> EnvAssertion \<Rightarrow> bool \<Rightarrow> error + bool" where
  "demo_assertion e a raise_flag =
     (let holds = (case a of JInt n \<Rightarrow> fst e = n | _ \<Rightarrow> False)
      in if holds then Inr True
         else if raise_flag then Inl (Error ''AssertionError'')
         else Inr False)"

definition demo_environment :: "(int \<times> int, int) Environment" where
  "demo_environment =
     \<lparr>construct = (\<lambda>solo. Inr (0, 0)),
      set_state = demo_set_state,
      has_tools = (\<lambda>e. True),
      make_tool_call = demo_call,
      get_db_hash = (\<lambda>e. Inr (fst e)),
      get_user_db_hash = (\<lambda>e. Inr (snd e)),
      get_agent_db_state = (\<lambda>e. Inr (Some [(''bookings'', JInt (fst e))])),
      get_user_db_state = (\<lambda>e. Inr (Some [(''bookings'', JInt (snd e))])),
      run_env_assertion = demo_assertion\<rparr>"

text \<open>The same environment with a snapshot getter that raises.\<close>

definition broken_snapshot_environment :: "(int \<times> int, int) Environment" where
  "broken_snapshot_environment =
     demo_environment\<lparr>get_agent_db_state := (\<lambda>e. Inl (Error ''snapshot failed''))\<rparr>"

text \<open>
  The same environment with an assertion runner that raises on an assertion it cannot
  evaluate (one that is not a number), whatever the flag says.
\<close>

definition strict_assertion_environment :: "(int \<times> int, int) Environment" where
  "strict_assertion_environment =
     demo_environment
       \<lparr>run_env_assertion :=
          (\<lambda>e a raise_flag.
             case a of
               JInt n \<Rightarrow> demo_assertion e a raise_flag
             | _ \<Rightarrow> Inl (Error ''ValueError''))\<rparr>"

text \<open>The same environment with a constructor that raises.\<close>

definition unconstructible_environment :: "(int \<times> int, int) Environment" where
  "unconstructible_environment =
     demo_environment\<lparr>construct := (\<lambda>solo. Inl (Error ''no environment''))\<rparr>"

text \<open>The same environment with the two counters stored in the other order.\<close>

definition swapped_environment :: "(int \<times> int, int) Environment" where
  "swapped_environment =
     \<lparr>construct = (\<lambda>solo. Inr (0, 0)),
      set_state = (\<lambda>e d a h. map_sum id prod.swap (demo_set_state (prod.swap e) d a h)),
      has_tools = (\<lambda>e. True),
      make_tool_call = (\<lambda>e n r a. map_prod id prod.swap (demo_call (prod.swap e) n r a)),
      get_db_hash = (\<lambda>e. Inr (snd e)),
      get_user_db_hash = (\<lambda>e. Inr (fst e)),
      get_agent_db_state = (\<lambda>e. Inr (Some [(''bookings'', JInt (snd e))])),
      get_user_db_state = (\<lambda>e. Inr (Some [(''bookings'', JInt (fst e))])),
      run_env_assertion = (\<lambda>e. demo_assertion (prod.swap e))\<rparr>"

definition logfire_off :: "int Logfire" where
  "logfire_off =
     \<lparr>is_logfire_enabled = False, import_logfire = None,
      logfire_span = (\<lambda>s. None), deep_diff = (\<lambda>a b. Inr JNull)\<rparr>"

definition logfire_on :: "int Logfire" where
  "logfire_on = logfire_off\<lparr>is_logfire_enabled := True\<rparr>"

definition book_flight :: "requestor \<Rightarrow> Action" where
  "book_flight r =
     \<lparr>name = ''book_flight'', requestor = r, arguments = [(''flight_id'', JStr ''F1'')]\<rparr>"

definition unknown_tool :: Action where
  "unknown_tool = \<lparr>name = ''no_such_tool'', requestor = AssistantRequestor, arguments = []\<rparr>"

definition demo_task :: "EvaluationCriteria option \<Rightarrow> Task" where
  "demo_task c = \<lparr>task_id = ''t0'', evaluation_criteria = c, initial_state = None\<rparr>"

definition demo_criteria ::
  "Action list option \<Rightarrow> EnvAssertion list option \<Rightarrow> RewardType list \<Rightarrow> EvaluationCriteria" where
  "demo_criteria as es basis = \<lparr>actions = as, env_assertions = es, reward_basis = basis\<rparr>"

definition seeded_task :: "InitialState \<Rightarrow> Task" where
  "seeded_task s =
     \<lparr>task_id = ''t1'',
      evaluation_criteria = Some (demo_criteria (Some [book_flight AssistantRequestor]) None [DB]),
      initial_state = Some s\<rparr>"

definition booking_trajectory :: "Message list" where
  "booking_trajectory =
     [UserMessage (Some ''Book flight F1'') None,
      AssistantMessage None
        (Some [ToolCall ''book_flight'' [(''flight_id'', JStr ''F1'')] AssistantRequestor]),
      ToolMessage ''ok'']"

section \<open>The stages of the evaluation\<close>

lemmas demo_defs = demo_environment_def demo_call_def demo_set_state_def demo_assertion_def
  logfire_off_def logfire_on_def book_flight_def unknown_tool_def demo_task_def demo_criteria_def
  booking_trajectory_def broken_snapshot_environment_def seeded_task_def
  strict_assertion_environment_def

lemmas eval_defs = calculate_reward_def full_evaluation_def evaluate_against_gold_def
  predicted_environment_def seeded_gold_environment_def gold_environment_def golden_actions_def
  assertions_of_def compose_reward_def db_hashes_def compare_db_def agent_db_match_def user_db_match_def
  log_db_mismatch_def log_db_check_def try_db_check_span_def agent_db_before_gold_def
  log_agent_db_updated_gold_def try_agent_db_updated_gold_def dict_diff_for_logging_def
  initialization_data_of_def initialization_actions_of_def message_history_of_def is_tool_call_def
  no_criteria_info_def trivial_criteria_info_def


lemma predicted_tool_calls_total: "\<exists>tcs. predicted_tool_calls ms acc = Inr tcs"
proof (induction ms arbitrary: acc)
  case Nil
  then show ?case by simp
next
  case (Cons m ms)
  show ?case
  proof (cases "tool_calls m")
    case None
    then show ?thesis using Cons.IH by (simp add: is_tool_call_def)
  next
    case (Some tcs)
    then show ?thesis using Cons.IH by (simp add: is_tool_call_def)
  qed
qed


lemma full_evaluation_unfold:
  "full_evaluation env lf task crit traj solo =
     (case predicted_environment env task traj solo of
        Inl x \<Rightarrow> (Inl x, [])
      | Inr pred \<Rightarrow> evaluate_against_gold env lf task crit pred)"
proof -
  obtain tcs where "predicted_tool_calls traj [] = Inr tcs"
    using predicted_tool_calls_total by blast
  then show ?thesis
    by (simp add: full_evaluation_def split: sum.splits)
qed

lemma calculate_reward_full_path:
  assumes "evaluation_criteria task = Some crit"
    and "\<not> (actions crit = None \<and> env_assertions crit = None)"
  shows "calculate_reward env lf task traj solo =
     (case predicted_environment env task traj solo of
        Inl x \<Rightarrow> (Inl x, [])
      | Inr pred \<Rightarrow> evaluate_against_gold env lf task crit pred)"
proof -
  have "calculate_reward env lf task traj solo = full_evaluation env lf task crit traj solo"
    using assms unfolding calculate_reward_def
    by (cases "actions crit"; cases "env_assertions crit"; simp)
  then show ?thesis by (simp only: full_evaluation_unfold)
qed

lemma compose_reward_fst:
  "fst (compose_reward basis dbr ar) =
     (if DB \<in> set basis then dbr else 1) * (if ENV_ASSERTION \<in> set basis then ar else 1)"
  by (simp add: compose_reward_def Let_def)

lemma compose_reward_snd:
  "snd (compose_reward basis dbr ar) = selected_breakdown basis dbr ar"
  by (rule ext) (simp add: compose_reward_def selected_breakdown_def Let_def)


lemma run_env_assertions_acc:
  assumes "\<forall>a\<in>set as. run_env_assertion env pred a False = Inr (ok a)"
  shows "run_env_assertions env pred as checks r =
           Inr (checks @ map (\<lambda>a. assertion_check a (ok a)) as,
                r * prod_list (map (\<lambda>a. if ok a then 1 else 0) as))"
  using assms
proof (induction as arbitrary: checks r)
  case Nil
  then show ?case by simp
next
  case (Cons a as)
  have a: "run_env_assertion env pred a False = Inr (ok a)"
    using Cons.prems by simp
  have rest: "\<forall>a\<in>set as. run_env_assertion env pred a False = Inr (ok a)"
    using Cons.prems by simp
  show ?case
    by (simp add: a Cons.IH[OF rest] assertion_check_def)
qed


lemma run_env_assertions_result:
  assumes "run_env_assertions env pred as checks r = Inr (cs, ar)"
  shows "\<exists>new. cs = checks @ new \<and> ar = r * prod_list (map check_reward new)
           \<and> map env_assertion new = as"
  using assms
proof (induction as arbitrary: checks r)
  case Nil
  then show ?case by simp
next
  case (Cons a as)
  from Cons.prems obtain b where b: "run_env_assertion env pred a False = Inr b"
    by (cases "run_env_assertion env pred a False") simp_all
  define res where "res = assertion_check a b"
  have step: "run_env_assertions env pred (a # as) checks r =
      run_env_assertions env pred as (checks @ [res]) (r * check_reward res)"
    by (simp add: b res_def assertion_check_def)
  have "run_env_assertions env pred as (checks @ [res]) (r * check_reward res) = Inr (cs, ar)"
    using Cons.prems by (simp only: step)
  from Cons.IH[OF this] obtain new where new:
    "cs = (checks @ [res]) @ new" "ar = r * check_reward res * prod_list (map check_reward new)"
    "map env_assertion new = as"
    by (elim exE conjE)
  have 1: "cs = checks @ (res # new)" using new(1) by simp
  have 2: "ar = r * prod_list (map check_reward (res # new))"
    using new(2) by (simp add: mult.assoc)
  have 3: "map env_assertion (res # new) = a # as"
    using new(3) by (simp add: res_def assertion_check_def)
  show ?case
    by (rule exI[of _ "res # new"]) (intro conjI 1 2 3)
qed


lemma evaluate_against_gold_result:
  assumes "fst (evaluate_against_gold env lf task crit pred) = Inr r"
  shows "\<exists>gold hs cs ar.
           fst (gold_environment env lf task crit) = Inr gold \<and>
           db_hashes env gold pred = Inr hs \<and>
           run_env_assertions env pred (assertions_of crit) [] 1 = Inr (cs, ar) \<and>
           reward r = fst (compose_reward (reward_basis crit) (db_reward (compare_db hs)) ar) \<and>
           db_check r = Some (compare_db hs) \<and>
           ri_env_assertions r = Some cs \<and>
           ri_reward_basis r = Some (reward_basis crit) \<and>
           reward_breakdown r =
             Some (snd (compose_reward (reward_basis crit) (db_reward (compare_db hs)) ar)) \<and>
           info r = None"
proof (cases "gold_environment env lf task crit")
  case (Pair g evs)
  show ?thesis
  proof (cases g)
    case (Inl x)
    with Pair assms show ?thesis by (simp add: evaluate_against_gold_def)
  next
    case (Inr gold)
    note gold = this
    show ?thesis
    proof (cases "db_hashes env gold pred")
      case (Inl x)
      with Pair gold assms show ?thesis by (simp add: evaluate_against_gold_def)
    next
      case (Inr hs)
      note hs = this
      show ?thesis
      proof (cases "run_env_assertions env pred (assertions_of crit) [] 1")
        case (Inl x)
        with Pair gold hs assms show ?thesis by (simp add: evaluate_against_gold_def Let_def)
      next
        case (Inr p)
        obtain cs ar where p: "p = (cs, ar)" by (cases p)
        from Pair gold hs Inr p assms
        have "r = \<lparr>reward = fst (compose_reward (reward_basis crit) (db_reward (compare_db hs)) ar),
                db_check = Some (compare_db hs),
                ri_env_assertions = Some cs,
                ri_reward_basis = Some (reward_basis crit),
                reward_breakdown =
                  Some (snd (compose_reward (reward_basis crit) (db_reward (compare_db hs)) ar)),
                info = None\<rparr>"
          by (simp add: evaluate_against_gold_def Let_def)
        then have flds: "reward r = fst (compose_reward (reward_basis crit) (db_reward (compare_db hs)) ar) \<and>
           db_check r = Some (compare_db hs) \<and>
           ri_env_assertions r = Some cs \<and>
           ri_reward_basis r = Some (reward_basis crit) \<and>
           reward_breakdown r =
             Some (snd (compose_reward (reward_basis crit) (db_reward (compare_db hs)) ar)) \<and>
           info r = None"
          by simp
        have g: "fst (gold_environment env lf task crit) = Inr gold"
          using Pair gold by simp
        have a: "run_env_assertions env pred (assertions_of crit) [] 1 = Inr (cs, ar)"
          using Inr p by simp
        show ?thesis
          apply (rule exI[of _ gold], rule exI[of _ hs], rule exI[of _ cs], rule exI[of _ ar])
          using g hs a flds by (simp only: simp_thms)
      qed
    qed
  qed
qed

section \<open>The two shortcuts\<close>

text \<open>
  Claim C9. A task without evaluation criteria gets the reward 1.0 whatever the trajectory
  is. The result is the same for every environment, every Logfire state and every
  trajectory, and no diagnostics are written: nothing is constructed, compared or asserted.
\<close>

theorem no_criteria_shortcut:
  "evaluation_criteria task = None \<Longrightarrow>
     calculate_reward env lf task full_trajectory solo_mode =
       (Inr \<lparr>reward = 1, db_check = None, ri_env_assertions = None, ri_reward_basis = None,
             reward_breakdown = None, info = Some [(''note'', ''No evaluation criteria'')]\<rparr>,
        [])"
  by (simp add: calculate_reward_def no_criteria_info_def)

text \<open>
  The shortcut at a task without criteria, on an environment whose constructor would raise
  if it were called.
\<close>

theorem no_criteria_shortcut_witness:
  "evaluation_criteria (demo_task None) = None \<and>
   calculate_reward unconstructible_environment logfire_on (demo_task None) booking_trajectory True =
       (Inr \<lparr>reward = 1, db_check = None, ri_env_assertions = None, ri_reward_basis = None,
             reward_breakdown = None, info = Some [(''note'', ''No evaluation criteria'')]\<rparr>,
        [])"
proof -
  have h: "evaluation_criteria (demo_task None) = None"
    by (simp add: demo_task_def)
  show ?thesis
    using h no_criteria_shortcut [OF h, of unconstructible_environment logfire_on booking_trajectory True]
    by simp
qed

text \<open>
  Claim C1 speaks of criteria whose actions and assertions are empty or absent. The early
  return at line 46 tests for \<^verbatim>\<open>None\<close> only. With two empty lists the full evaluation
  runs: the trajectory books a flight, the gold environment books none, the digests differ
  and the reward is 0.0.
\<close>

theorem trivial_criteria_empty_lists_counterexample:
  "evaluation_criteria (demo_task (Some (demo_criteria (Some []) (Some []) [DB])))
     = Some (demo_criteria (Some []) (Some []) [DB]) \<and>
   actions (demo_criteria (Some []) (Some []) [DB]) = Some [] \<and>
   env_assertions (demo_criteria (Some []) (Some []) [DB]) = Some [] \<and>
   calculate_reward demo_environment logfire_off
       (demo_task (Some (demo_criteria (Some []) (Some []) [DB]))) booking_trajectory False
     = (Inr \<lparr>reward = 0, db_check = Some \<lparr>db_match = False, db_reward = 0\<rparr>,
             ri_env_assertions = Some [], ri_reward_basis = Some [DB],
             reward_breakdown = Some [DB \<mapsto> 0], info = None\<rparr>,
        [AgentDbMismatch ''t0''])"
  by (simp add: eval_defs demo_defs)

text \<open>
  Claim C1, amended. When the criteria are present and both \<^verbatim>\<open>actions\<close> and
  \<^verbatim>\<open>env_assertions\<close> are absent (\<^verbatim>\<open>None\<close>), the reward is 1.0 and the state check is
  reported as matched, for every trajectory and every environment, and the full
  evaluation does not run: the result does not depend on the environment and no
  diagnostics are written.
\<close>

theorem trivial_criteria_shortcut:
  "evaluation_criteria task = Some crit \<Longrightarrow> actions crit = None \<Longrightarrow> env_assertions crit = None \<Longrightarrow>
     calculate_reward env lf task full_trajectory solo_mode =
       (Inr \<lparr>reward = 1, db_check = Some \<lparr>db_match = True, db_reward = 1\<rparr>,
             ri_env_assertions = None, ri_reward_basis = None, reward_breakdown = None,
             info = Some [(''note'', ''No expected actions or env assertions'')]\<rparr>,
        [])"
  by (simp add: calculate_reward_def trivial_criteria_info_def)

text \<open>
  The shortcut at criteria with both fields absent, on an environment whose constructor
  would raise if it were called.
\<close>

theorem trivial_criteria_shortcut_witness:
  "evaluation_criteria (demo_task (Some (demo_criteria None None [DB])))
     = Some (demo_criteria None None [DB]) \<and>
   actions (demo_criteria None None [DB]) = None \<and>
   env_assertions (demo_criteria None None [DB]) = None \<and>
   calculate_reward unconstructible_environment logfire_on
       (demo_task (Some (demo_criteria None None [DB]))) booking_trajectory False =
       (Inr \<lparr>reward = 1, db_check = Some \<lparr>db_match = True, db_reward = 1\<rparr>,
             ri_env_assertions = None, ri_reward_basis = None, reward_breakdown = None,
             info = Some [(''note'', ''No expected actions or env assertions'')]\<rparr>,
        [])"
proof -
  have h1: "evaluation_criteria (demo_task (Some (demo_criteria None None [DB])))
     = Some (demo_criteria None None [DB])"
    by (simp add: demo_task_def)
  have h2: "actions (demo_criteria None None [DB]) = None"
    by (simp add: demo_criteria_def)
  have h3: "env_assertions (demo_criteria None None [DB]) = None"
    by (simp add: demo_criteria_def)
  show ?thesis
    using h1 h2 h3
      trivial_criteria_shortcut [OF h1 h2 h3, of unconstructible_environment logfire_on
        booking_trajectory False]
    by simp
qed

section \<open>The predicted tool calls\<close>

text \<open>
  Claim C10. The list of predicted tool calls is never read: \<^verbatim>\<open>calculate_reward\<close> equals
  the function without the extraction loop, in its result and in its diagnostics. The
  trajectory reaches the result only through \<^verbatim>\<open>set_state\<close> on the predicted
  environment: two trajectories that leave the predicted environment in the same state
  (or make seeding fail alike) are scored alike.
\<close>

theorem extraction_is_dead_code:
  "calculate_reward env lf task full_trajectory solo_mode =
     calculate_reward_without_extraction env lf task full_trajectory solo_mode \<and>
   (predicted_environment env task full_trajectory solo_mode =
      predicted_environment env task other_trajectory solo_mode \<longrightarrow>
    calculate_reward env lf task full_trajectory solo_mode =
      calculate_reward env lf task other_trajectory solo_mode)"
  by (simp add: calculate_reward_def calculate_reward_without_extraction_def
        full_evaluation_unfold split: option.splits)

text \<open>
  Two different trajectories, each with one booking by the agent, are scored alike.
\<close>

theorem extraction_is_dead_code_witness:
  "predicted_environment demo_environment (demo_task (Some (demo_criteria (Some []) None [DB])))
      booking_trajectory False =
   predicted_environment demo_environment (demo_task (Some (demo_criteria (Some []) None [DB])))
      [UserMessage None (Some [ToolCall ''book_flight'' [] AssistantRequestor])] False \<and>
   calculate_reward demo_environment logfire_off
      (demo_task (Some (demo_criteria (Some []) None [DB]))) booking_trajectory False =
   calculate_reward_without_extraction demo_environment logfire_off
      (demo_task (Some (demo_criteria (Some []) None [DB]))) booking_trajectory False \<and>
   calculate_reward demo_environment logfire_off
      (demo_task (Some (demo_criteria (Some []) None [DB]))) booking_trajectory False =
   calculate_reward demo_environment logfire_off
      (demo_task (Some (demo_criteria (Some []) None [DB])))
      [UserMessage None (Some [ToolCall ''book_flight'' [] AssistantRequestor])] False"
proof -
  have h: "predicted_environment demo_environment
      (demo_task (Some (demo_criteria (Some []) None [DB]))) booking_trajectory False =
   predicted_environment demo_environment (demo_task (Some (demo_criteria (Some []) None [DB])))
      [UserMessage None (Some [ToolCall ''book_flight'' [] AssistantRequestor])] False"
    by (simp add: eval_defs demo_defs)
  show ?thesis
    using h extraction_is_dead_code [of demo_environment logfire_off
        "demo_task (Some (demo_criteria (Some []) None [DB]))" booking_trajectory False
        "[UserMessage None (Some [ToolCall ''book_flight'' [] AssistantRequestor])]"]
    by blast
qed

section \<open>The state-match signal\<close>

lemma db_hashes_result:
  assumes "db_hashes env gold pred = Inr hs"
  shows "get_db_hash env gold = Inr (fst hs) \<and>
         get_user_db_hash env gold = Inr (fst (snd hs)) \<and>
         get_db_hash env pred = Inr (fst (snd (snd hs))) \<and>
         get_user_db_hash env pred = Inr (snd (snd (snd hs)))"
  using assms unfolding db_hashes_def
  by (cases "get_db_hash env gold"; cases "get_user_db_hash env gold";
      cases "get_db_hash env pred"; cases "get_user_db_hash env pred") auto

lemma compare_db_binary:
  "compare_db hs =
     \<lparr>db_match = (fst hs = fst (snd (snd hs)) \<and> fst (snd hs) = snd (snd (snd hs))),
      db_reward = (if fst hs = fst (snd (snd hs)) \<and> fst (snd hs) = snd (snd (snd hs))
                   then 1 else 0)\<rparr>"
  by (cases hs) (simp add: compare_db_def agent_db_match_def user_db_match_def)

lemma calculate_reward_result:
  assumes "evaluation_criteria task = Some crit"
    and "\<not> (actions crit = None \<and> env_assertions crit = None)"
    and "fst (calculate_reward env lf task traj solo) = Inr r"
  shows "\<exists>pred. predicted_environment env task traj solo = Inr pred \<and>
           fst (evaluate_against_gold env lf task crit pred) = Inr r"
proof (cases "predicted_environment env task traj solo")
  case (Inl x)
  with assms show ?thesis by (simp add: calculate_reward_full_path)
next
  case (Inr pred)
  with assms show ?thesis by (simp add: calculate_reward_full_path)
qed

text \<open>
  Claim C3. In the full evaluation the state check is binary. When the function returns,
  the four digests were fetched from the gold environment (seeded and advanced by the
  golden actions) and from the predicted environment; \<^verbatim>\<open>db_match\<close> is true and
  \<^verbatim>\<open>db_reward\<close> is 1.0 exactly when the agent digests agree and the user digests
  agree, and otherwise \<^verbatim>\<open>db_match\<close> is false and \<^verbatim>\<open>db_reward\<close> is 0.0.
\<close>

theorem db_check_is_binary:
  assumes "evaluation_criteria task = Some crit"
    and "\<not> (actions crit = None \<and> env_assertions crit = None)"
    and "fst (calculate_reward env lf task full_trajectory solo_mode) = Inr r"
  shows "\<exists>pred gold a u pa pu.
           predicted_environment env task full_trajectory solo_mode = Inr pred \<and>
           fst (gold_environment env lf task crit) = Inr gold \<and>
           get_db_hash env gold = Inr a \<and> get_user_db_hash env gold = Inr u \<and>
           get_db_hash env pred = Inr pa \<and> get_user_db_hash env pred = Inr pu \<and>
           db_check r = Some \<lparr>db_match = (a = pa \<and> u = pu),
                               db_reward = (if a = pa \<and> u = pu then 1 else 0)\<rparr>"
proof -
  from calculate_reward_result[OF assms] obtain pred where
    pred: "predicted_environment env task full_trajectory solo_mode = Inr pred"
    and ev: "fst (evaluate_against_gold env lf task crit pred) = Inr r"
    by blast
  from evaluate_against_gold_result[OF ev] obtain gold hs where
    gold: "fst (gold_environment env lf task crit) = Inr gold"
    and hs: "db_hashes env gold pred = Inr hs"
    and check: "db_check r = Some (compare_db hs)"
    by blast
  note h = db_hashes_result[OF hs]
  have c: "db_check r =
      Some \<lparr>db_match = (fst hs = fst (snd (snd hs)) \<and> fst (snd hs) = snd (snd (snd hs))),
            db_reward = (if fst hs = fst (snd (snd hs)) \<and> fst (snd hs) = snd (snd (snd hs))
                         then 1 else 0)\<rparr>"
    using check compare_db_binary[of hs] by simp
  show ?thesis
    apply (rule exI[of _ pred], rule exI[of _ gold], rule exI[of _ "fst hs"],
        rule exI[of _ "fst (snd hs)"], rule exI[of _ "fst (snd (snd hs))"],
        rule exI[of _ "snd (snd (snd hs))"])
    using pred gold h c by (simp only: simp_thms)
qed

text \<open>
  The gold actions book one flight for each party and the trajectory books one for the
  agent only: the agent digests agree, the user digests differ, and the check fails with
  reward 0.0.
\<close>

theorem db_check_is_binary_witness:
  "evaluation_criteria
     (demo_task (Some (demo_criteria
        (Some [book_flight AssistantRequestor, book_flight UserRequestor]) None [DB])))
     = Some (demo_criteria
        (Some [book_flight AssistantRequestor, book_flight UserRequestor]) None [DB]) \<and>
   \<not> (actions (demo_criteria
          (Some [book_flight AssistantRequestor, book_flight UserRequestor]) None [DB]) = None \<and>
      env_assertions (demo_criteria
          (Some [book_flight AssistantRequestor, book_flight UserRequestor]) None [DB]) = None) \<and>
   fst (calculate_reward demo_environment logfire_off
     (demo_task (Some (demo_criteria
        (Some [book_flight AssistantRequestor, book_flight UserRequestor]) None [DB])))
     booking_trajectory False)
     = Inr \<lparr>reward = 0, db_check = Some \<lparr>db_match = False, db_reward = 0\<rparr>,
            ri_env_assertions = Some [], ri_reward_basis = Some [DB],
            reward_breakdown = Some [DB \<mapsto> 0], info = None\<rparr> \<and>
   (\<exists>pred gold a u pa pu.
      predicted_environment demo_environment
        (demo_task (Some (demo_criteria
           (Some [book_flight AssistantRequestor, book_flight UserRequestor]) None [DB])))
        booking_trajectory False = Inr pred \<and>
      fst (gold_environment demo_environment logfire_off
        (demo_task (Some (demo_criteria
           (Some [book_flight AssistantRequestor, book_flight UserRequestor]) None [DB])))
        (demo_criteria
           (Some [book_flight AssistantRequestor, book_flight UserRequestor]) None [DB]))
        = Inr gold \<and>
      get_db_hash demo_environment gold = Inr a \<and>
      get_user_db_hash demo_environment gold = Inr u \<and>
      get_db_hash demo_environment pred = Inr pa \<and>
      get_user_db_hash demo_environment pred = Inr pu \<and>
      Some \<lparr>db_match = False, db_reward = 0\<rparr> =
        Some \<lparr>db_match = (a = pa \<and> u = pu),
              db_reward = (if a = pa \<and> u = pu then 1 else 0)\<rparr>)"
proof -
  let ?c = "demo_criteria (Some [book_flight AssistantRequestor, book_flight UserRequestor]) None [DB]"
  let ?r = "\<lparr>reward = 0, db_check = Some \<lparr>db_match = False, db_reward = 0\<rparr>,
            ri_env_assertions = Some [], ri_reward_basis = Some [DB],
            reward_breakdown = Some [DB \<mapsto> 0], info = None\<rparr>"
  have h1: "evaluation_criteria (demo_task (Some ?c)) = Some ?c"
    by (simp add: demo_task_def)
  have h2: "\<not> (actions ?c = None \<and> env_assertions ?c = None)"
    by (simp add: demo_criteria_def)
  have h3: "fst (calculate_reward demo_environment logfire_off (demo_task (Some ?c))
              booking_trajectory False) = Inr ?r"
    by (simp add: eval_defs demo_defs)
  have "db_check ?r = Some \<lparr>db_match = False, db_reward = 0\<rparr>"
    by simp
  with db_check_is_binary [OF h1 h2 h3] h1 h2 h3 show ?thesis
    by (simp only: simp_thms)
qed

section \<open>Composing the reward\<close>

text \<open>
  Claim C2 speaks of every task with evaluation criteria. On the trivial shortcut (both
  \<^verbatim>\<open>actions\<close> and \<^verbatim>\<open>env_assertions\<close> absent) the result is built without a breakdown:
  with \<^verbatim>\<open>RewardType.DB\<close> in the basis, \<^verbatim>\<open>reward_breakdown\<close> is not set, although the
  state-match signal is selected and reported as 1.0.
\<close>

theorem reward_breakdown_shortcut_counterexample:
  "evaluation_criteria (demo_task (Some (demo_criteria None None [DB])))
     = Some (demo_criteria None None [DB]) \<and>
   DB \<in> set (reward_basis (demo_criteria None None [DB])) \<and>
   fst (calculate_reward demo_environment logfire_off
          (demo_task (Some (demo_criteria None None [DB]))) [] False)
     = Inr \<lparr>reward = 1, db_check = Some \<lparr>db_match = True, db_reward = 1\<rparr>,
            ri_env_assertions = None, ri_reward_basis = None, reward_breakdown = None,
            info = Some [(''note'', ''No expected actions or env assertions'')]\<rparr>"
  by (simp add: calculate_reward_def trivial_criteria_info_def demo_task_def demo_criteria_def)

text \<open>
  Claim C2, amended. For every task with evaluation criteria on which
  \<^verbatim>\<open>calculate_reward\<close> returns, the reward is the product of the signals whose kind
  is in the basis: the state-match reward of \<^verbatim>\<open>db_check\<close> enters iff \<^verbatim>\<open>DB\<close> is in the
  basis, the product of the per-assertion rewards enters iff \<^verbatim>\<open>ENV_ASSERTION\<close> is in
  the basis, and a signal outside the basis does not change the reward. In the full
  evaluation \<^verbatim>\<open>reward_breakdown\<close> holds exactly the selected signals; on the trivial
  shortcut it is not set.
\<close>

theorem reward_is_product_of_selected_signals:
  assumes "evaluation_criteria task = Some crit"
    and "fst (calculate_reward env lf task full_trajectory solo_mode) = Inr r"
  shows "reward r =
           (if DB \<in> set (reward_basis crit) then db_signal r else 1) *
           (if ENV_ASSERTION \<in> set (reward_basis crit) then assertion_signal r else 1) \<and>
         reward_breakdown r =
           (if actions crit = None \<and> env_assertions crit = None then None
            else Some (selected_breakdown (reward_basis crit) (db_signal r) (assertion_signal r)))"
proof (cases "actions crit = None \<and> env_assertions crit = None")
  case True
  with assms have "r = trivial_criteria_info"
    by (simp add: calculate_reward_def)
  with True show ?thesis
    by (simp add: trivial_criteria_info_def db_signal_def assertion_signal_def)
next
  case False
  from calculate_reward_result[OF assms(1) False assms(2)] obtain pred where
    ev: "fst (evaluate_against_gold env lf task crit pred) = Inr r"
    by blast
  from evaluate_against_gold_result[OF ev] obtain gold hs cs ar where
    "fst (gold_environment env lf task crit) = Inr gold"
    "db_hashes env gold pred = Inr hs"
    and run: "run_env_assertions env pred (assertions_of crit) [] 1 = Inr (cs, ar)"
    and rew: "reward r = fst (compose_reward (reward_basis crit) (db_reward (compare_db hs)) ar)"
    and check: "db_check r = Some (compare_db hs)"
    and checks: "ri_env_assertions r = Some cs"
    and "ri_reward_basis r = Some (reward_basis crit)"
    and bd: "reward_breakdown r =
               Some (snd (compose_reward (reward_basis crit) (db_reward (compare_db hs)) ar))"
    and "info r = None"
    by (elim exE conjE)
  from run_env_assertions_result[OF run] have ar: "ar = prod_list (map check_reward cs)"
    by auto
  have d: "db_signal r = db_reward (compare_db hs)"
    using check by (simp add: db_signal_def)
  have a: "assertion_signal r = ar"
    using checks ar by (simp add: assertion_signal_def)
  show ?thesis
    using False rew bd by (simp only: d a compose_reward_fst compose_reward_snd if_False simp_thms)
qed

text \<open>
  The basis is the state match alone and the second assertion fails: the reward stays 1.0
  and the breakdown holds the state match only.
\<close>

theorem reward_is_product_of_selected_signals_witness:
  "evaluation_criteria
     (demo_task (Some (demo_criteria (Some [book_flight AssistantRequestor])
        (Some [JInt 1, JInt 2]) [DB])))
     = Some (demo_criteria (Some [book_flight AssistantRequestor]) (Some [JInt 1, JInt 2]) [DB]) \<and>
   fst (calculate_reward demo_environment logfire_off
     (demo_task (Some (demo_criteria (Some [book_flight AssistantRequestor])
        (Some [JInt 1, JInt 2]) [DB])))
     booking_trajectory False)
     = Inr \<lparr>reward = 1, db_check = Some \<lparr>db_match = True, db_reward = 1\<rparr>,
            ri_env_assertions =
              Some [\<lparr>env_assertion = JInt 1, met = True, check_reward = 1\<rparr>,
                    \<lparr>env_assertion = JInt 2, met = False, check_reward = 0\<rparr>],
            ri_reward_basis = Some [DB],
            reward_breakdown = Some [DB \<mapsto> 1], info = None\<rparr> \<and>
   (1::real) = (if DB \<in> set [DB] then 1 else 1) * (if ENV_ASSERTION \<in> set [DB] then 0 else 1) \<and>
   Some [DB \<mapsto> (1::real)] = Some (selected_breakdown [DB] 1 0)"
proof -
  let ?c = "demo_criteria (Some [book_flight AssistantRequestor]) (Some [JInt 1, JInt 2]) [DB]"
  let ?r = "\<lparr>reward = 1, db_check = Some \<lparr>db_match = True, db_reward = 1\<rparr>,
            ri_env_assertions =
              Some [\<lparr>env_assertion = JInt 1, met = True, check_reward = 1\<rparr>,
                    \<lparr>env_assertion = JInt 2, met = False, check_reward = 0\<rparr>],
            ri_reward_basis = Some [DB],
            reward_breakdown = Some [DB \<mapsto> 1], info = None\<rparr>"
  have h1: "evaluation_criteria (demo_task (Some ?c)) = Some ?c"
    by (simp add: demo_task_def)
  have h2: "fst (calculate_reward demo_environment logfire_off (demo_task (Some ?c))
              booking_trajectory False) = Inr ?r"
    by (simp add: eval_defs demo_defs)
  have s: "db_signal ?r = 1" "assertion_signal ?r = 0" "reward_basis ?c = [DB]"
     "\<not> (actions ?c = None \<and> env_assertions ?c = None)"
    by (simp_all add: db_signal_def assertion_signal_def demo_criteria_def)
  from reward_is_product_of_selected_signals [OF h1 h2]
  have c: "(1::real) = (if DB \<in> set [DB] then 1 else 1) * (if ENV_ASSERTION \<in> set [DB] then 0 else 1) \<and>
   Some [DB \<mapsto> (1::real)] = Some (selected_breakdown [DB] 1 0)"
    by (simp add: s)
  show ?thesis
    using h1 h2 c by (simp only: simp_thms)
qed

section \<open>Environments that behave alike\<close>

lemma replay_golden_actions_fst:
  "fst (replay_golden_actions env lf tid i (a # rest) gold) =
     (case agent_db_before_gold env gold of
        Inl x \<Rightarrow> Inl x
      | Inr s \<Rightarrow> fst (replay_golden_actions env lf tid (Suc i) rest (apply_action env gold a)))"
  by (cases "agent_db_before_gold env gold";
      cases "make_tool_call env gold (name a) (requestor a) (arguments a)")
     (simp_all add: apply_action_def Let_def)

lemma rel_sum_eq_cases:
  assumes "rel_sum (=) R x y"
  obtains (Left) e where "x = Inl e" "y = Inl e"
        | (Right) a b where "x = Inr a" "y = Inr b" "R a b"
  using assms by (cases x; cases y) simp_all

lemma replay_golden_actions_related:
  assumes "env_sim R env1 env2" and "R g1 g2"
  shows "rel_sum (=) R (fst (replay_golden_actions env1 lf1 tid1 i1 as g1))
                        (fst (replay_golden_actions env2 lf2 tid2 i2 as g2))"
  using assms(2)
proof (induction as arbitrary: g1 g2 i1 i2)
  case Nil
  then show ?case by simp
next
  case (Cons a as)
  have snap: "agent_db_before_gold env1 g1 = agent_db_before_gold env2 g2"
    using assms(1) Cons.prems unfolding env_sim_def by blast
  have step: "R (apply_action env1 g1 a) (apply_action env2 g2 a)"
    using assms(1) Cons.prems unfolding env_sim_def apply_action_def by blast
  show ?case
  proof (cases "agent_db_before_gold env2 g2")
    case (Inl x)
    then show ?thesis by (simp only: replay_golden_actions_fst snap sum.case rel_sum_simps)
  next
    case (Inr s)
    then show ?thesis
      using Cons.IH[OF step] by (simp only: replay_golden_actions_fst snap sum.case)
  qed
qed

lemma predicted_environment_related:
  assumes "env_sim R env1 env2"
  shows "rel_sum (=) R (predicted_environment env1 task traj solo)
                        (predicted_environment env2 task traj solo)"
proof -
  have c: "rel_sum (=) R (construct env1 (Some solo)) (construct env2 (Some solo))"
    using assms unfolding env_sim_def by blast
  from c show ?thesis
  proof (cases rule: rel_sum_eq_cases)
    case (Left e)
    then show ?thesis by (simp add: predicted_environment_def)
  next
    case (Right a b)
    then have "rel_sum (=) R
        (set_state env1 a (initialization_data_of task) (initialization_actions_of task) traj)
        (set_state env2 b (initialization_data_of task) (initialization_actions_of task) traj)"
      using assms unfolding env_sim_def by blast
    with Right show ?thesis by (simp add: predicted_environment_def)
  qed
qed

lemma seeded_gold_environment_related:
  assumes "env_sim R env1 env2"
  shows "rel_sum (=) R (seeded_gold_environment env1 task) (seeded_gold_environment env2 task)"
proof -
  have c: "rel_sum (=) R (construct env1 None) (construct env2 None)"
    using assms unfolding env_sim_def by blast
  from c show ?thesis
  proof (cases rule: rel_sum_eq_cases)
    case (Left e)
    then show ?thesis by (simp add: seeded_gold_environment_def)
  next
    case (Right a b)
    then have "rel_sum (=) R
        (set_state env1 a (initialization_data_of task) (initialization_actions_of task)
           (message_history_of task))
        (set_state env2 b (initialization_data_of task) (initialization_actions_of task)
           (message_history_of task))"
      using assms unfolding env_sim_def by blast
    with Right show ?thesis by (simp add: seeded_gold_environment_def)
  qed
qed

lemma gold_environment_related:
  assumes "env_sim R env1 env2"
  shows "rel_sum (=) R (fst (gold_environment env1 lf1 task crit))
                        (fst (gold_environment env2 lf2 task crit))"
  using seeded_gold_environment_related[OF assms, of task]
proof (cases rule: rel_sum_eq_cases)
  case (Left e)
  then show ?thesis by (simp add: gold_environment_def)
next
  case (Right a b)
  then show ?thesis
    using replay_golden_actions_related[OF assms Right(3)]
    by (simp add: gold_environment_def)
qed

lemma db_hashes_related:
  assumes "env_sim R env1 env2" and "R g1 g2" and "R p1 p2"
  shows "db_hashes env1 g1 p1 = db_hashes env2 g2 p2"
proof -
  have h: "get_db_hash env1 g1 = get_db_hash env2 g2"
       "get_user_db_hash env1 g1 = get_user_db_hash env2 g2"
       "get_db_hash env1 p1 = get_db_hash env2 p2"
       "get_user_db_hash env1 p1 = get_user_db_hash env2 p2"
    using assms unfolding env_sim_def by blast+
  show ?thesis unfolding db_hashes_def h by (rule refl)
qed

lemma run_env_assertions_related:
  assumes "env_sim R env1 env2" and "R p1 p2"
  shows "run_env_assertions env1 p1 as checks r = run_env_assertions env2 p2 as checks r"
proof (induction as arbitrary: checks r)
  case Nil
  then show ?case by simp
next
  case (Cons a as)
  have h: "run_env_assertion env1 p1 a False = run_env_assertion env2 p2 a False"
    using assms unfolding env_sim_def by blast
  show ?case unfolding run_env_assertions.simps h Cons.IH by (rule refl)
qed


lemma evaluate_against_gold_fst:
  "fst (evaluate_against_gold env lf task crit pred) =
     (case fst (gold_environment env lf task crit) of
        Inl x \<Rightarrow> Inl x
      | Inr gold \<Rightarrow>
     (case db_hashes env gold pred of
        Inl x \<Rightarrow> Inl x
      | Inr hs \<Rightarrow>
     (case run_env_assertions env pred (assertions_of crit) [] 1 of
        Inl x \<Rightarrow> Inl x
      | Inr res \<Rightarrow>
          Inr \<lparr>reward = fst (compose_reward (reward_basis crit) (db_reward (compare_db hs))
                               (snd res)),
               db_check = Some (compare_db hs),
               ri_env_assertions = Some (fst res),
               ri_reward_basis = Some (reward_basis crit),
               reward_breakdown =
                 Some (snd (compose_reward (reward_basis crit) (db_reward (compare_db hs))
                              (snd res))),
               info = None\<rparr>)))"
  by (simp add: evaluate_against_gold_def Let_def split: prod.splits sum.splits)

lemma evaluate_against_gold_related:
  assumes "env_sim R env1 env2" and "R p1 p2"
  shows "fst (evaluate_against_gold env1 lf1 task crit p1) =
         fst (evaluate_against_gold env2 lf2 task crit p2)"
  using gold_environment_related[OF assms(1), of lf1 task crit lf2]
proof (cases rule: rel_sum_eq_cases)
  case (Left e)
  then show ?thesis by (simp only: evaluate_against_gold_fst sum.case)
next
  case (Right g1 g2)
  show ?thesis
    unfolding evaluate_against_gold_fst Right(1,2) sum.case
      db_hashes_related[OF assms(1) Right(3) assms(2)]
      run_env_assertions_related[OF assms]
    by (rule refl)
qed

lemma calculate_reward_related:
  assumes "env_sim R env1 env2"
  shows "fst (calculate_reward env1 lf1 task traj solo) =
         fst (calculate_reward env2 lf2 task traj solo)"
proof (cases "evaluation_criteria task")
  case None
  then show ?thesis by (simp add: calculate_reward_def)
next
  case (Some crit)
  show ?thesis
  proof (cases "actions crit = None \<and> env_assertions crit = None")
    case True
    with Some show ?thesis by (simp add: calculate_reward_def)
  next
    case False
    from predicted_environment_related[OF assms, of task traj solo] show ?thesis
    proof (cases rule: rel_sum_eq_cases)
      case (Left e)
      then show ?thesis
        by (simp only: calculate_reward_full_path[OF Some False] sum.case fst_conv)
    next
      case (Right p1 p2)
      then show ?thesis
        using evaluate_against_gold_related[OF assms Right(3)]
        by (simp only: calculate_reward_full_path[OF Some False] sum.case)
    qed
  qed
qed

lemma compared_digests_related:
  assumes "env_sim R env1 env2"
  shows "compared_digests env1 lf1 task crit traj solo =
         compared_digests env2 lf2 task crit traj solo"
  using predicted_environment_related[OF assms, of task traj solo]
proof (cases rule: rel_sum_eq_cases)
  case (Left e)
  then show ?thesis by (simp only: compared_digests_def sum.case)
next
  case (Right p1 p2)
  note p = this
  from gold_environment_related[OF assms, of lf1 task crit lf2] show ?thesis
  proof (cases rule: rel_sum_eq_cases)
    case (Left e)
    with p show ?thesis by (simp only: compared_digests_def sum.case)
  next
    case (Right g1 g2)
    with p db_hashes_related[OF assms Right(3) p(3)] show ?thesis
      by (simp only: compared_digests_def sum.case)
  qed
qed

lemma env_bisim_sim:
  assumes "env_bisim R env1 env2"
  shows "env_sim R env1 env2"
proof -
  have c: "\<forall>b. rel_sum (=) R (construct env1 b) (construct env2 b)"
    using assms unfolding env_bisim_def by blast
  have s: "\<forall>e1 e2 d a h. R e1 e2 \<longrightarrow>
         rel_sum (=) R (set_state env1 e1 d a h) (set_state env2 e2 d a h)"
    using assms unfolding env_bisim_def by blast
  have m: "\<forall>e1 e2 n r a. R e1 e2 \<longrightarrow>
         R (snd (make_tool_call env1 e1 n r a)) (snd (make_tool_call env2 e2 n r a))"
  proof (intro allI impI)
    fix e1 e2 n r a
    assume "R e1 e2"
    then have "rel_prod (=) R (make_tool_call env1 e1 n r a) (make_tool_call env2 e2 n r a)"
      using assms unfolding env_bisim_def by blast
    then show "R (snd (make_tool_call env1 e1 n r a)) (snd (make_tool_call env2 e2 n r a))"
      by (simp add: rel_prod_sel)
  qed
  have g: "\<forall>e1 e2. R e1 e2 \<longrightarrow>
         agent_db_before_gold env1 e1 = agent_db_before_gold env2 e2 \<and>
         get_db_hash env1 e1 = get_db_hash env2 e2 \<and>
         get_user_db_hash env1 e1 = get_user_db_hash env2 e2 \<and>
         (\<forall>a. run_env_assertion env1 e1 a False = run_env_assertion env2 e2 a False)"
  proof (intro allI impI)
    fix e1 e2
    assume r: "R e1 e2"
    have "has_tools env1 e1 = has_tools env2 e2"
      "get_agent_db_state env1 e1 = get_agent_db_state env2 e2"
      "get_db_hash env1 e1 = get_db_hash env2 e2"
      "get_user_db_hash env1 e1 = get_user_db_hash env2 e2"
      "\<forall>a f. run_env_assertion env1 e1 a f = run_env_assertion env2 e2 a f"
      using assms r unfolding env_bisim_def by blast+
    then show "agent_db_before_gold env1 e1 = agent_db_before_gold env2 e2 \<and>
         get_db_hash env1 e1 = get_db_hash env2 e2 \<and>
         get_user_db_hash env1 e1 = get_user_db_hash env2 e2 \<and>
         (\<forall>a. run_env_assertion env1 e1 a False = run_env_assertion env2 e2 a False)"
      by (simp add: agent_db_before_gold_def)
  qed
  show ?thesis unfolding env_sim_def using c s m g by blast
qed

section \<open>Environment assertions\<close>

lemma prod_list_indicator:
  "prod_list (map (\<lambda>a. if ok a then 1 else 0) as) = (if (\<forall>a\<in>set as. ok a) then 1 else (0::real))"
  by (induction as) simp_all

lemma run_env_assertions_flag:
  "run_env_assertions (never_raise_flag env) pred as checks r =
   run_env_assertions env pred as checks r"
proof (induction as arbitrary: checks r)
  case Nil
  then show ?case by simp
next
  case (Cons a as)
  have h: "run_env_assertion (never_raise_flag env) pred a False = run_env_assertion env pred a False"
    by (simp add: never_raise_flag_def)
  show ?case unfolding run_env_assertions.simps h Cons.IH by (rule refl)
qed

lemma run_env_assertions_answered:
  assumes "\<forall>a\<in>set as. run_env_assertion env pred a False = Inr (ok a)"
  shows "run_env_assertions env pred as [] 1 =
           Inr (map (\<lambda>a. assertion_check a (ok a)) as,
                prod_list (map (\<lambda>a. if ok a then 1 else 0) as)) \<and>
         prod_list (map (\<lambda>a. if ok a then 1 else 0) as) =
           (if (\<forall>a\<in>set as. ok a) then 1 else (0::real)) \<and>
         run_env_assertions (never_raise_flag env) pred as [] 1 =
           run_env_assertions env pred as [] 1 \<and>
         (evaluation_criteria task = Some crit \<and>
          \<not> (actions crit = None \<and> env_assertions crit = None) \<and>
          assertions_of crit = as \<and>
          predicted_environment env task full_trajectory solo_mode = Inr pred \<and>
          fst (calculate_reward env lf task full_trajectory solo_mode) = Inr r \<longrightarrow>
            ri_env_assertions r = Some (map (\<lambda>a. assertion_check a (ok a)) as) \<and>
            assertion_signal r = (if (\<forall>a\<in>set as. ok a) then 1 else 0))"
proof -
  have run: "run_env_assertions env pred as [] 1 =
           Inr (map (\<lambda>a. assertion_check a (ok a)) as,
                prod_list (map (\<lambda>a. if ok a then 1 else 0) as))"
    using run_env_assertions_acc[OF assms, of "[]" 1] by simp
  have via: "ri_env_assertions r = Some (map (\<lambda>a. assertion_check a (ok a)) as) \<and>
            assertion_signal r = (if (\<forall>a\<in>set as. ok a) then 1 else 0)"
    if c: "evaluation_criteria task = Some crit"
      and f: "\<not> (actions crit = None \<and> env_assertions crit = None)"
      and a: "assertions_of crit = as"
      and p: "predicted_environment env task full_trajectory solo_mode = Inr pred"
      and ret: "fst (calculate_reward env lf task full_trajectory solo_mode) = Inr r"
  proof -
    from calculate_reward_result[OF c f ret] p
    have ev: "fst (evaluate_against_gold env lf task crit pred) = Inr r"
      by auto
    from evaluate_against_gold_result[OF ev] obtain gold hs cs ar where
      "fst (gold_environment env lf task crit) = Inr gold"
      "db_hashes env gold pred = Inr hs"
      and run': "run_env_assertions env pred (assertions_of crit) [] 1 = Inr (cs, ar)"
      and "reward r = fst (compose_reward (reward_basis crit) (db_reward (compare_db hs)) ar)"
      and "db_check r = Some (compare_db hs)"
      and checks: "ri_env_assertions r = Some cs"
      and "ri_reward_basis r = Some (reward_basis crit)"
      and "reward_breakdown r =
               Some (snd (compose_reward (reward_basis crit) (db_reward (compare_db hs)) ar))"
      and "info r = None"
      by (elim exE conjE)
    from run' run a have cs: "cs = map (\<lambda>a. assertion_check a (ok a)) as"
      by simp
    have "prod_list (map check_reward (map (\<lambda>a. assertion_check a (ok a)) as)) =
          prod_list (map (\<lambda>a. if ok a then 1 else 0) as)"
      by (simp add: comp_def assertion_check_def)
    then have "assertion_signal r = (if (\<forall>a\<in>set as. ok a) then 1 else 0)"
      using checks cs by (simp add: assertion_signal_def prod_list_indicator)
    with checks cs show ?thesis by simp
  qed
  show ?thesis
    using run prod_list_indicator[of ok as] run_env_assertions_flag[of env pred as "[]" 1] via
    by blast
qed

lemma run_env_assertions_raise:
  assumes "\<forall>a\<in>set pre. run_env_assertion env pred a False = Inr (ok a)"
    and "run_env_assertion env pred bad False = Inl x"
  shows "run_env_assertions env pred (pre @ bad # post) checks r = Inl x"
  using assms(1)
proof (induction pre arbitrary: checks r)
  case Nil
  show ?case by (simp add: assms(2))
next
  case (Cons a pre)
  have a: "run_env_assertion env pred a False = Inr (ok a)"
    using Cons.prems by simp
  have rest: "\<forall>a\<in>set pre. run_env_assertion env pred a False = Inr (ok a)"
    using Cons.prems by simp
  show ?case
    by (simp add: a Cons.IH[OF rest])
qed

lemma calculate_reward_assertion_raise:
  assumes "evaluation_criteria task = Some crit"
    and "\<not> (actions crit = None \<and> env_assertions crit = None)"
    and "predicted_environment env task full_trajectory solo_mode = Inr pred"
    and "fst (gold_environment env lf task crit) = Inr gold"
    and "db_hashes env gold pred = Inr hs"
    and "run_env_assertions env pred (assertions_of crit) [] 1 = Inl x"
  shows "fst (calculate_reward env lf task full_trajectory solo_mode) = Inl x"
  by (simp add: calculate_reward_full_path[OF assms(1,2)] assms(3) evaluate_against_gold_fst
        assms(4) assms(5) assms(6))

text \<open>
  Claim C4 says that an evaluation failure is recorded as unmet rather than raised. The
  loop of lines 202 to 213 passes the flag off and has no \<^verbatim>\<open>try\<close>: on an environment
  whose \<^verbatim>\<open>run_env_assertion\<close> raises although the flag is off, the exception leaves
  \<^verbatim>\<open>calculate_reward\<close> and no check is recorded.
\<close>

theorem assertion_error_propagates_counterexample:
  "run_env_assertion strict_assertion_environment (1, 0) (JStr ''no_such_check'') False
     = Inl (Error ''ValueError'') \<and>
   calculate_reward strict_assertion_environment logfire_off
      (demo_task (Some (demo_criteria (Some [book_flight AssistantRequestor])
         (Some [JStr ''no_such_check'']) [DB, ENV_ASSERTION])))
      booking_trajectory False
     = (Inl (Error ''ValueError''), [])"
  by (simp add: eval_defs demo_defs)

text \<open>
  Claim C4, amended. Each assertion is evaluated against the predicted environment with
  \<^verbatim>\<open>raise_assertion_error=False\<close>: the result of the loop is the same on the
  environment that ignores the flag. The evaluator catches nothing itself. When every
  call answers with a boolean, the loop returns one check for each assertion, in order,
  with \<^verbatim>\<open>met\<close> the answer and the reward 1.0 or 0.0 accordingly, so an assertion that
  does not hold is recorded as unmet with reward 0.0; the aggregate is the product of
  these rewards, which is 1.0 when all assertions are met (also for the empty list) and
  0.0 as soon as one is unmet; a result of \<^verbatim>\<open>calculate_reward\<close> in the full evaluation
  carries exactly these checks and this aggregate. When a call raises although the flag
  is off, the loop ends with that exception at the first such assertion, and so does
  \<^verbatim>\<open>calculate_reward\<close>.
\<close>

theorem assertion_reward_is_product:
  "run_env_assertions (never_raise_flag env) pred as [] 1 =
     run_env_assertions env pred as [] 1 \<and>
   ((\<forall>a\<in>set as. run_env_assertion env pred a False = Inr (ok a)) \<longrightarrow>
      run_env_assertions env pred as [] 1 =
        Inr (map (\<lambda>a. assertion_check a (ok a)) as,
             prod_list (map (\<lambda>a. if ok a then 1 else 0) as)) \<and>
      prod_list (map (\<lambda>a. if ok a then 1 else 0) as) =
        (if (\<forall>a\<in>set as. ok a) then 1 else (0::real)) \<and>
      (evaluation_criteria task = Some crit \<and>
       \<not> (actions crit = None \<and> env_assertions crit = None) \<and>
       assertions_of crit = as \<and>
       predicted_environment env task full_trajectory solo_mode = Inr pred \<and>
       fst (calculate_reward env lf task full_trajectory solo_mode) = Inr r \<longrightarrow>
         ri_env_assertions r = Some (map (\<lambda>a. assertion_check a (ok a)) as) \<and>
         assertion_signal r = (if (\<forall>a\<in>set as. ok a) then 1 else 0))) \<and>
   ((\<forall>a\<in>set pre. run_env_assertion env pred a False = Inr (ok a)) \<and>
    run_env_assertion env pred bad False = Inl x \<longrightarrow>
      run_env_assertions env pred (pre @ bad # post) [] 1 = Inl x \<and>
      (evaluation_criteria task = Some crit \<and>
       \<not> (actions crit = None \<and> env_assertions crit = None) \<and>
       assertions_of crit = pre @ bad # post \<and>
       predicted_environment env task full_trajectory solo_mode = Inr pred \<and>
       fst (gold_environment env lf task crit) = Inr gold \<and>
       db_hashes env gold pred = Inr hs \<longrightarrow>
         fst (calculate_reward env lf task full_trajectory solo_mode) = Inl x))"
proof -
  have 1: "run_env_assertions (never_raise_flag env) pred as [] 1 =
     run_env_assertions env pred as [] 1"
    by (rule run_env_assertions_flag)
  have 2: "run_env_assertions env pred as [] 1 =
        Inr (map (\<lambda>a. assertion_check a (ok a)) as,
             prod_list (map (\<lambda>a. if ok a then 1 else 0) as)) \<and>
      prod_list (map (\<lambda>a. if ok a then 1 else 0) as) =
        (if (\<forall>a\<in>set as. ok a) then 1 else (0::real)) \<and>
      (evaluation_criteria task = Some crit \<and>
       \<not> (actions crit = None \<and> env_assertions crit = None) \<and>
       assertions_of crit = as \<and>
       predicted_environment env task full_trajectory solo_mode = Inr pred \<and>
       fst (calculate_reward env lf task full_trajectory solo_mode) = Inr r \<longrightarrow>
         ri_env_assertions r = Some (map (\<lambda>a. assertion_check a (ok a)) as) \<and>
         assertion_signal r = (if (\<forall>a\<in>set as. ok a) then 1 else 0))"
    if h: "\<forall>a\<in>set as. run_env_assertion env pred a False = Inr (ok a)"
    using run_env_assertions_answered[OF h, of task crit full_trajectory solo_mode lf r]
    by blast
  have 3: "run_env_assertions env pred (pre @ bad # post) [] 1 = Inl x \<and>
      (evaluation_criteria task = Some crit \<and>
       \<not> (actions crit = None \<and> env_assertions crit = None) \<and>
       assertions_of crit = pre @ bad # post \<and>
       predicted_environment env task full_trajectory solo_mode = Inr pred \<and>
       fst (gold_environment env lf task crit) = Inr gold \<and>
       db_hashes env gold pred = Inr hs \<longrightarrow>
         fst (calculate_reward env lf task full_trajectory solo_mode) = Inl x)"
    if b: "(\<forall>a\<in>set pre. run_env_assertion env pred a False = Inr (ok a)) \<and>
           run_env_assertion env pred bad False = Inl x"
  proof -
    from b have p: "\<forall>a\<in>set pre. run_env_assertion env pred a False = Inr (ok a)"
      and q: "run_env_assertion env pred bad False = Inl x"
      by simp_all
    have run: "run_env_assertions env pred (pre @ bad # post) [] 1 = Inl x"
      by (rule run_env_assertions_raise[OF p q])
    have "fst (calculate_reward env lf task full_trajectory solo_mode) = Inl x"
      if c: "evaluation_criteria task = Some crit \<and>
             \<not> (actions crit = None \<and> env_assertions crit = None) \<and>
             assertions_of crit = pre @ bad # post \<and>
             predicted_environment env task full_trajectory solo_mode = Inr pred \<and>
             fst (gold_environment env lf task crit) = Inr gold \<and>
             db_hashes env gold pred = Inr hs"
    proof -
      from c have c1: "evaluation_criteria task = Some crit"
        and c2: "\<not> (actions crit = None \<and> env_assertions crit = None)"
        and c3: "assertions_of crit = pre @ bad # post"
        and c4: "predicted_environment env task full_trajectory solo_mode = Inr pred"
        and c5: "fst (gold_environment env lf task crit) = Inr gold"
        and c6: "db_hashes env gold pred = Inr hs"
        by simp_all
      have r: "run_env_assertions env pred (assertions_of crit) [] 1 = Inl x"
        using run by (simp only: c3)
      show ?thesis
        by (rule calculate_reward_assertion_raise[OF c1 c2 c4 c5 c6 r])
    qed
    with run show ?thesis by blast
  qed
  from 1 2 3 show ?thesis by blast
qed

text \<open>
  On the example environment, three assertions on the predicted state with one booking,
  the second unmet: with the flag on the environment would raise on it; the loop passes
  the flag off and records it as unmet, the aggregate is 0.0, and the reward with both
  signals in the basis is 0.0. On the environment that raises on an assertion it cannot
  evaluate, the first assertion is met and the second raises: the loop and
  \<^verbatim>\<open>calculate_reward\<close> end with that exception.
\<close>

theorem assertion_reward_is_product_witness:
  "run_env_assertion demo_environment (1, 0) (JInt 1) False = Inr True \<and>
   run_env_assertion demo_environment (1, 0) (JInt 2) False = Inr False \<and>
   run_env_assertion demo_environment (1, 0) (JInt 2) True = Inl (Error ''AssertionError'') \<and>
   run_env_assertions demo_environment (1, 0) [JInt 1, JInt 2, JInt 1] [] 1 =
     Inr ([\<lparr>env_assertion = JInt 1, met = True, check_reward = 1\<rparr>,
           \<lparr>env_assertion = JInt 2, met = False, check_reward = 0\<rparr>,
           \<lparr>env_assertion = JInt 1, met = True, check_reward = 1\<rparr>], 0) \<and>
   run_env_assertions (never_raise_flag demo_environment) (1, 0) [JInt 1, JInt 2, JInt 1] [] 1 =
     run_env_assertions demo_environment (1, 0) [JInt 1, JInt 2, JInt 1] [] 1 \<and>
   fst (calculate_reward demo_environment logfire_off
          (demo_task (Some (demo_criteria (Some [book_flight AssistantRequestor])
             (Some [JInt 1, JInt 2, JInt 1]) [DB, ENV_ASSERTION])))
          booking_trajectory False) =
     Inr \<lparr>reward = 0, db_check = Some \<lparr>db_match = True, db_reward = 1\<rparr>,
          ri_env_assertions =
            Some [\<lparr>env_assertion = JInt 1, met = True, check_reward = 1\<rparr>,
                  \<lparr>env_assertion = JInt 2, met = False, check_reward = 0\<rparr>,
                  \<lparr>env_assertion = JInt 1, met = True, check_reward = 1\<rparr>],
          ri_reward_basis = Some [DB, ENV_ASSERTION],
          reward_breakdown = Some [DB \<mapsto> 1, ENV_ASSERTION \<mapsto> 0], info = None\<rparr> \<and>
   assertion_signal
        \<lparr>reward = 0, db_check = Some \<lparr>db_match = True, db_reward = 1\<rparr>,
          ri_env_assertions =
            Some [\<lparr>env_assertion = JInt 1, met = True, check_reward = 1\<rparr>,
                  \<lparr>env_assertion = JInt 2, met = False, check_reward = 0\<rparr>,
                  \<lparr>env_assertion = JInt 1, met = True, check_reward = 1\<rparr>],
          ri_reward_basis = Some [DB, ENV_ASSERTION],
          reward_breakdown = Some [DB \<mapsto> 1, ENV_ASSERTION \<mapsto> 0], info = None\<rparr> = 0 \<and>
   run_env_assertion strict_assertion_environment (1, 0) (JInt 1) False = Inr True \<and>
   run_env_assertion strict_assertion_environment (1, 0) (JStr ''no_such_check'') False
     = Inl (Error ''ValueError'') \<and>
   run_env_assertions strict_assertion_environment (1, 0)
     [JInt 1, JStr ''no_such_check'', JInt 2] [] 1 = Inl (Error ''ValueError'') \<and>
   predicted_environment strict_assertion_environment
     (demo_task (Some (demo_criteria (Some [book_flight AssistantRequestor])
        (Some [JInt 1, JStr ''no_such_check'', JInt 2]) [DB, ENV_ASSERTION])))
     booking_trajectory False = Inr (1, 0) \<and>
   fst (gold_environment strict_assertion_environment logfire_off
     (demo_task (Some (demo_criteria (Some [book_flight AssistantRequestor])
        (Some [JInt 1, JStr ''no_such_check'', JInt 2]) [DB, ENV_ASSERTION])))
     (demo_criteria (Some [book_flight AssistantRequestor])
        (Some [JInt 1, JStr ''no_such_check'', JInt 2]) [DB, ENV_ASSERTION])) = Inr (1, 0) \<and>
   db_hashes strict_assertion_environment (1, 0) (1, 0) = Inr (1, 0, 1, 0) \<and>
   fst (calculate_reward strict_assertion_environment logfire_off
     (demo_task (Some (demo_criteria (Some [book_flight AssistantRequestor])
        (Some [JInt 1, JStr ''no_such_check'', JInt 2]) [DB, ENV_ASSERTION])))
     booking_trajectory False) = Inl (Error ''ValueError'')"
proof -
  let ?as = "[JInt 1, JInt 2, JInt 1]"
  let ?c = "demo_criteria (Some [book_flight AssistantRequestor]) (Some ?as) [DB, ENV_ASSERTION]"
  let ?t = "demo_task (Some ?c)"
  let ?r = "\<lparr>reward = 0, db_check = Some \<lparr>db_match = True, db_reward = 1\<rparr>,
          ri_env_assertions =
            Some [\<lparr>env_assertion = JInt 1, met = True, check_reward = 1\<rparr>,
                  \<lparr>env_assertion = JInt 2, met = False, check_reward = 0\<rparr>,
                  \<lparr>env_assertion = JInt 1, met = True, check_reward = 1\<rparr>],
          ri_reward_basis = Some [DB, ENV_ASSERTION],
          reward_breakdown = Some [DB \<mapsto> 1, ENV_ASSERTION \<mapsto> 0], info = None\<rparr>"
  let ?bad = "JStr ''no_such_check''"
  let ?c' = "demo_criteria (Some [book_flight AssistantRequestor])
               (Some [JInt 1, ?bad, JInt 2]) [DB, ENV_ASSERTION]"
  let ?t' = "demo_task (Some ?c')"
  have e1: "run_env_assertion demo_environment (1, 0) (JInt 1) False = Inr True"
    by (simp add: demo_defs)
  have e2: "run_env_assertion demo_environment (1, 0) (JInt 2) False = Inr False"
    by (simp add: demo_defs)
  have e3: "run_env_assertion demo_environment (1, 0) (JInt 2) True = Inl (Error ''AssertionError'')"
    by (simp add: demo_defs)
  have h: "\<forall>a\<in>set ?as. run_env_assertion demo_environment (1, 0) a False = Inr (a = JInt 1)"
    using e1 e2 by simp
  have c: "evaluation_criteria ?t = Some ?c"
    by (simp add: demo_task_def)
  have f: "\<not> (actions ?c = None \<and> env_assertions ?c = None)"
    by (simp add: demo_criteria_def)
  have a: "assertions_of ?c = ?as"
    by (simp add: assertions_of_def demo_criteria_def)
  have p: "predicted_environment demo_environment ?t booking_trajectory False = Inr (1, 0)"
    by (simp add: eval_defs demo_defs)
  have ret: "fst (calculate_reward demo_environment logfire_off ?t booking_trajectory False) = Inr ?r"
    by (simp add: eval_defs demo_defs)
  note t = assertion_reward_is_product
    [where env = demo_environment and pred = "(1, 0)" and as = ?as
       and ok = "\<lambda>a. a = JInt 1" and task = ?t and crit = ?c
       and full_trajectory = booking_trajectory and solo_mode = False
       and lf = logfire_off and r = ?r]
  from t h have "run_env_assertions demo_environment (1, 0) ?as [] 1 =
           Inr (map (\<lambda>a. assertion_check a (a = JInt 1)) ?as,
                prod_list (map (\<lambda>a. if a = JInt 1 then 1 else 0) ?as))"
    by blast
  then have 1: "run_env_assertions demo_environment (1, 0) ?as [] 1 =
     Inr ([\<lparr>env_assertion = JInt 1, met = True, check_reward = 1\<rparr>,
           \<lparr>env_assertion = JInt 2, met = False, check_reward = 0\<rparr>,
           \<lparr>env_assertion = JInt 1, met = True, check_reward = 1\<rparr>], 0)"
    by (simp add: assertion_check_def)
  from t have 2: "run_env_assertions (never_raise_flag demo_environment) (1, 0) ?as [] 1 =
     run_env_assertions demo_environment (1, 0) ?as [] 1"
    by blast
  from t h c f a p ret have "assertion_signal ?r = (if (\<forall>a\<in>set ?as. a = JInt 1) then 1 else 0)"
    by blast
  then have 3: "assertion_signal ?r = 0"
    by simp
  have s1: "run_env_assertion strict_assertion_environment (1, 0) (JInt 1) False = Inr True"
    by (simp add: demo_defs)
  have s2: "run_env_assertion strict_assertion_environment (1, 0) ?bad False
      = Inl (Error ''ValueError'')"
    by (simp add: demo_defs)
  have hp: "\<forall>a\<in>set [JInt 1].
      run_env_assertion strict_assertion_environment (1, 0) a False = Inr (a = JInt 1)"
    using s1 by simp
  have c': "evaluation_criteria ?t' = Some ?c'"
    by (simp add: demo_task_def)
  have f': "\<not> (actions ?c' = None \<and> env_assertions ?c' = None)"
    by (simp add: demo_criteria_def)
  have a': "assertions_of ?c' = [JInt 1] @ ?bad # [JInt 2]"
    by (simp add: assertions_of_def demo_criteria_def)
  have p': "predicted_environment strict_assertion_environment ?t' booking_trajectory False
      = Inr (1, 0)"
    by (simp add: eval_defs demo_defs)
  have g': "fst (gold_environment strict_assertion_environment logfire_off ?t' ?c') = Inr (1, 0)"
    by (simp add: eval_defs demo_defs)
  have d': "db_hashes strict_assertion_environment (1, 0) (1, 0) = Inr (1, 0, 1, 0)"
    by (simp add: eval_defs demo_defs)
  note t' = assertion_reward_is_product
    [where env = strict_assertion_environment and pred = "(1, 0)"
       and ok = "\<lambda>a. a = JInt 1" and task = ?t' and crit = ?c'
       and full_trajectory = booking_trajectory and solo_mode = False
       and lf = logfire_off and pre = "[JInt 1]" and bad = ?bad
       and x = "Error ''ValueError''" and post = "[JInt 2]"
       and gold = "(1, 0)" and hs = "(1, 0, 1, 0)"]
  from t' hp s2 have "run_env_assertions strict_assertion_environment (1, 0)
      ([JInt 1] @ ?bad # [JInt 2]) [] 1 = Inl (Error ''ValueError'')"
    by blast
  then have 4: "run_env_assertions strict_assertion_environment (1, 0)
      [JInt 1, ?bad, JInt 2] [] 1 = Inl (Error ''ValueError'')"
    by simp
  from t' hp s2 c' f' a' p' g' d'
  have 5: "fst (calculate_reward strict_assertion_environment logfire_off ?t'
      booking_trajectory False) = Inl (Error ''ValueError'')"
    by blast
  show ?thesis
    using e1 e2 e3 1 2 ret 3 s1 s2 4 p' g' d' 5 by (simp only: simp_thms)
qed

section \<open>Seeding errors\<close>

text \<open>
  Claim C8. In the full evaluation a seeding error is not caught. If \<^verbatim>\<open>set_state\<close>
  raises on the predicted environment, or if the predicted environment is set up and
  \<^verbatim>\<open>set_state\<close> raises on the gold environment, \<^verbatim>\<open>calculate_reward\<close> ends with that
  exception: there is no \<^verbatim>\<open>RewardInfo\<close>, and nothing was logged before.
\<close>

theorem seeding_error_propagates:
  assumes "evaluation_criteria task = Some crit"
    and "\<not> (actions crit = None \<and> env_assertions crit = None)"
  shows "(construct env (Some solo_mode) = Inr e \<and>
          set_state env e (initialization_data_of task) (initialization_actions_of task)
            full_trajectory = Inl x \<longrightarrow>
          calculate_reward env lf task full_trajectory solo_mode = (Inl x, [])) \<and>
         (predicted_environment env task full_trajectory solo_mode = Inr pred \<and>
          construct env None = Inr g \<and>
          set_state env g (initialization_data_of task) (initialization_actions_of task)
            (message_history_of task) = Inl x \<longrightarrow>
          calculate_reward env lf task full_trajectory solo_mode = (Inl x, []))"
  by (simp add: calculate_reward_full_path[OF assms] predicted_environment_def
        evaluate_against_gold_def gold_environment_def seeded_gold_environment_def)

text \<open>
  Seed data that the example environment rejects, and an initial message history that it
  rejects while it accepts the trajectory.
\<close>

theorem seeding_error_propagates_witness:
  "evaluation_criteria
      (seeded_task \<lparr>initialization_data = Some (JStr ''corrupt''),
                    initialization_actions = None, message_history = None\<rparr>)
     = Some (demo_criteria (Some [book_flight AssistantRequestor]) None [DB]) \<and>
   \<not> (actions (demo_criteria (Some [book_flight AssistantRequestor]) None [DB]) = None \<and>
      env_assertions (demo_criteria (Some [book_flight AssistantRequestor]) None [DB]) = None) \<and>
   construct demo_environment (Some False) = Inr (0, 0) \<and>
   set_state demo_environment (0, 0) (Some (JStr ''corrupt'')) None booking_trajectory
     = Inl (Error ''invalid initialization data'') \<and>
   calculate_reward demo_environment logfire_off
      (seeded_task \<lparr>initialization_data = Some (JStr ''corrupt''),
                    initialization_actions = None, message_history = None\<rparr>)
      booking_trajectory False
     = (Inl (Error ''invalid initialization data''), []) \<and>
   evaluation_criteria
      (seeded_task \<lparr>initialization_data = None, initialization_actions = None,
                    message_history = Some [ToolMessage ''orphan'']\<rparr>)
     = Some (demo_criteria (Some [book_flight AssistantRequestor]) None [DB]) \<and>
   predicted_environment demo_environment
      (seeded_task \<lparr>initialization_data = None, initialization_actions = None,
                    message_history = Some [ToolMessage ''orphan'']\<rparr>)
      booking_trajectory False = Inr (1, 0) \<and>
   construct demo_environment None = Inr (0, 0) \<and>
   set_state demo_environment (0, 0) None None [ToolMessage ''orphan'']
     = Inl (Error ''tool message without a tool call'') \<and>
   calculate_reward demo_environment logfire_off
      (seeded_task \<lparr>initialization_data = None, initialization_actions = None,
                    message_history = Some [ToolMessage ''orphan'']\<rparr>)
      booking_trajectory False
     = (Inl (Error ''tool message without a tool call''), [])"
proof -
  let ?c = "demo_criteria (Some [book_flight AssistantRequestor]) None [DB]"
  let ?s1 = "\<lparr>initialization_data = Some (JStr ''corrupt''),
                    initialization_actions = None, message_history = None\<rparr>"
  let ?s2 = "\<lparr>initialization_data = None, initialization_actions = None,
                    message_history = Some [ToolMessage ''orphan'']\<rparr>"
  have c1: "evaluation_criteria (seeded_task ?s1) = Some ?c"
    and c2: "evaluation_criteria (seeded_task ?s2) = Some ?c"
    by (simp_all add: seeded_task_def)
  have f: "\<not> (actions ?c = None \<and> env_assertions ?c = None)"
    by (simp add: demo_criteria_def)
  have k1: "construct demo_environment (Some False) = Inr (0, 0)"
    and k2: "construct demo_environment None = Inr (0, 0)"
    by (simp_all add: demo_environment_def)
  have i1: "initialization_data_of (seeded_task ?s1) = Some (JStr ''corrupt'')"
     "initialization_actions_of (seeded_task ?s1) = None"
    and i2: "initialization_data_of (seeded_task ?s2) = None"
     "initialization_actions_of (seeded_task ?s2) = None"
     "message_history_of (seeded_task ?s2) = [ToolMessage ''orphan'']"
    by (simp_all add: seeded_task_def initialization_data_of_def initialization_actions_of_def
          message_history_of_def)
  have s1: "set_state demo_environment (0, 0) (Some (JStr ''corrupt'')) None booking_trajectory
     = Inl (Error ''invalid initialization data'')"
    by (simp add: demo_defs)
  have s2: "set_state demo_environment (0, 0) None None [ToolMessage ''orphan'']
     = Inl (Error ''tool message without a tool call'')"
    by (simp add: demo_defs)
  have p2: "predicted_environment demo_environment (seeded_task ?s2) booking_trajectory False
     = Inr (1, 0)"
    by (simp add: eval_defs demo_defs)
  from seeding_error_propagates [OF c1 f, of demo_environment False "(0, 0)" booking_trajectory
      "Error ''invalid initialization data''" logfire_off]
  have r1: "calculate_reward demo_environment logfire_off (seeded_task ?s1) booking_trajectory False
     = (Inl (Error ''invalid initialization data''), [])"
    using k1 s1 unfolding i1 by blast
  from seeding_error_propagates [OF c2 f, of demo_environment False _ booking_trajectory
      "Error ''tool message without a tool call''" logfire_off "(1, 0)" "(0, 0)"]
  have r2: "calculate_reward demo_environment logfire_off (seeded_task ?s2) booking_trajectory False
     = (Inl (Error ''tool message without a tool call''), [])"
    using k2 s2 p2 unfolding i2 by blast
  show ?thesis
    using c1 c2 f k1 k2 s1 s2 p2 r1 r2 by (simp only: simp_thms)
qed

section \<open>Golden actions\<close>












section \<open>Diagnostic errors\<close>

lemma env_sim_refl: "env_sim (=) env env"
  unfolding env_sim_def by (simp add: sum.rel_eq)

text \<open>
  The result of the evaluation does not depend on the Logfire state: the flag, the import,
  the spans and the diff library only change what is written.
\<close>

lemma logfire_independent:
  "fst (calculate_reward env lf task traj solo) = fst (calculate_reward env lf' task traj solo)"
  by (rule calculate_reward_related[OF env_sim_refl])

text \<open>
  Claim C6 fails on the code. The two Logfire blocks sit inside \<^verbatim>\<open>try\<close> and
  \<^verbatim>\<open>except Exception: pass\<close>, and the result does not depend on the Logfire state
  (\<open>logfire_independent\<close>). The snapshot taken before each golden action (lines 97 to
  101) is outside both the guard and the \<^verbatim>\<open>try\<close>: with Logfire disabled, an environment
  whose \<^verbatim>\<open>get_agent_db_state\<close> raises makes \<^verbatim>\<open>calculate_reward\<close> end with that exception
  at the first golden action.
\<close>

theorem snapshot_error_aborts_scoring:
  "calculate_reward broken_snapshot_environment logfire_off
     (demo_task (Some (demo_criteria (Some [book_flight AssistantRequestor]) None [DB])))
     booking_trajectory False
   = (Inl (Error ''snapshot failed''), [])"
  by (simp add: eval_defs demo_defs)

section \<open>Determinism\<close>

text \<open>
  Claim C7. Two invocations on the same task and trajectory, against environments whose
  instances behave identically on identical call sequences, return the same result (the
  same \<^verbatim>\<open>RewardInfo\<close>, hence the same reward and the same \<^verbatim>\<open>db_check\<close>, or the same
  exception) and compare the same four digests, whatever the Logfire state of either
  invocation is.
\<close>

theorem calculate_reward_deterministic:
  assumes "env_bisim R env1 env2"
  shows "fst (calculate_reward env1 lf1 task full_trajectory solo_mode) =
           fst (calculate_reward env2 lf2 task full_trajectory solo_mode) \<and>
         compared_digests env1 lf1 task crit full_trajectory solo_mode =
           compared_digests env2 lf2 task crit full_trajectory solo_mode"
  using calculate_reward_related[OF env_bisim_sim[OF assms]]
    compared_digests_related[OF env_bisim_sim[OF assms]]
  by blast

text \<open>The example environment and its copy with the counters swapped behave alike.\<close>

lemma demo_swapped_bisim:
  "env_bisim (\<lambda>e1 e2. e2 = prod.swap e1) demo_environment swapped_environment"
proof -
  have s: "rel_sum (=) (\<lambda>e1 e2. e2 = prod.swap e1) x (map_sum id prod.swap x)"
    for x :: "error + int \<times> int"
    by (cases x) simp_all
  have p: "rel_prod (=) (\<lambda>e1 e2. e2 = prod.swap e1) y (map_prod id prod.swap y)"
    for y :: "error option \<times> int \<times> int"
    by (cases y) simp
  show ?thesis
    unfolding env_bisim_def demo_environment_def swapped_environment_def
    by (simp add: s p)
qed

text \<open>
  One invocation on the example environment with Logfire off, one on the swapped copy with
  Logfire on.
\<close>

theorem calculate_reward_deterministic_witness:
  "env_bisim (\<lambda>e1 e2. e2 = prod.swap e1) demo_environment swapped_environment \<and>
   fst (calculate_reward demo_environment logfire_off
          (demo_task (Some (demo_criteria (Some [book_flight AssistantRequestor]) None [DB])))
          booking_trajectory False) =
   fst (calculate_reward swapped_environment logfire_on
          (demo_task (Some (demo_criteria (Some [book_flight AssistantRequestor]) None [DB])))
          booking_trajectory False) \<and>
   compared_digests demo_environment logfire_off
          (demo_task (Some (demo_criteria (Some [book_flight AssistantRequestor]) None [DB])))
          (demo_criteria (Some [book_flight AssistantRequestor]) None [DB])
          booking_trajectory False =
   compared_digests swapped_environment logfire_on
          (demo_task (Some (demo_criteria (Some [book_flight AssistantRequestor]) None [DB])))
          (demo_criteria (Some [book_flight AssistantRequestor]) None [DB])
          booking_trajectory False \<and>
   compared_digests demo_environment logfire_off
          (demo_task (Some (demo_criteria (Some [book_flight AssistantRequestor]) None [DB])))
          (demo_criteria (Some [book_flight AssistantRequestor]) None [DB])
          booking_trajectory False = Inr (1, 0, 1, 0)"
proof -
  let ?c = "demo_criteria (Some [book_flight AssistantRequestor]) None [DB]"
  have d: "compared_digests demo_environment logfire_off (demo_task (Some ?c)) ?c
             booking_trajectory False = Inr (1, 0, 1, 0)"
    by (simp add: compared_digests_def eval_defs demo_defs)
  from calculate_reward_deterministic [OF demo_swapped_bisim,
      of logfire_off "demo_task (Some ?c)" booking_trajectory False logfire_on ?c]
    demo_swapped_bisim d
  show ?thesis by (simp only: simp_thms)
qed

end
